theory Spec2Isabelle
  imports Main "HOL-Library.Sublist"
begin

section \<open>PythonApktool: the ApkTool wrapper class\<close>

text \<open>
  The class \<^verbatim>\<open>ApkTool\<close> of \<^verbatim>\<open>PythonApktool.py\<close> drives three external programs
  (apktool, apksigner, zipalign).  Everything it does is an effect on the world around it:
  it launches processes, tests, deletes and renames files, and prints.  The embedding makes
  these effects explicit.  A \<open>world\<close> holds the files on disk together with the trace of
  every effect so far; the \<open>host\<close> holds what the Python runtime and the operating system
  answer (the platform name, the working directory, \<^verbatim>\<open>os.path\<close>, \<^verbatim>\<open>glob\<close>, and how a
  launched command behaves).  Each method is a function from the world to a result and the
  new world; a Python exception that leaves a method is the result \<open>Inl\<close>.
\<close>

subsection \<open>Python strings\<close>

text \<open>
  A string is a list of characters with codes below 256; the output of a command is its
  text once decoded.  \<^verbatim>\<open>str.strip()\<close> removes the white space of Python at both
  ends; the white space characters with codes below 256 are TAB, LF, VT, FF, CR, FS, GS,
  RS, US, the blank, NEL (0x85) and the no-break space (0xA0).
\<close>

definition isspace :: "char \<Rightarrow> bool" where
  "isspace c = (c \<in> set [CHR 0x09, CHR 0x0A, CHR 0x0B, CHR 0x0C, CHR 0x0D,
                          CHR 0x1C, CHR 0x1D, CHR 0x1E, CHR 0x1F, CHR 0x20,
                          CHR 0x85, CHR 0xA0])"

definition strip :: "string \<Rightarrow> string" where
  "strip s = rev (dropWhile isspace (rev (dropWhile isspace s)))"

text \<open>The single quote, and \<^verbatim>\<open>s.split("'")[0]\<close>: the text before the first single quote.\<close>

definition quote :: char where
  "quote = CHR 0x27"

definition split_quote_0 :: "string \<Rightarrow> string" where
  "split_quote_0 s = takeWhile (\<lambda>c. c \<noteq> quote) s"

text \<open>The rendering \<^verbatim>\<open>'{path}'\<close> inside an f-string.\<close>

definition quoted :: "string \<Rightarrow> string" where
  "quoted s = [quote] @ s @ [quote]"

text \<open>
  \<^verbatim>\<open>s.replace(old, new)\<close>: the occurrences of \<open>old\<close> are found from the left and do not
  overlap; an empty \<open>old\<close> matches before every character and at the end.
\<close>

function replace :: "string \<Rightarrow> string \<Rightarrow> string \<Rightarrow> string" where
  "replace old new s =
     (if old = [] then new @ concat (map (\<lambda>c. c # new) s)
      else if s = [] then []
      else if prefix old s then new @ replace old new (drop (length old) s)
      else hd s # replace old new (tl s))"
  by pat_completeness auto
termination
  by (relation "measure (\<lambda>(old, new, s). length s)") auto

declare replace.simps [simp del]

text \<open>\<^verbatim>\<open>str(n)\<close> for an integer, as an f-string renders a return code.\<close>

fun str_nat :: "nat \<Rightarrow> string" where
  "str_nat n = (if n < 10 then [char_of (48 + n)]
                else str_nat (n div 10) @ [char_of (48 + n mod 10)])"

declare str_nat.simps [simp del]

definition str_int :: "int \<Rightarrow> string" where
  "str_int i = (if i < 0 then CHR ''-'' # str_nat (nat (- i)) else str_nat (nat i))"

text \<open>
  The lines \<^verbatim>\<open>process.stdout.readline\<close> returns until the end of the stream: each
  ends with its line feed, but for a last line the stream does not terminate.
\<close>

fun readlines :: "string \<Rightarrow> string \<Rightarrow> string list" where
  "readlines acc [] = (if acc = [] then [] else [acc])"
| "readlines acc (c # cs) =
     (if c = CHR 0x0A then (acc @ [c]) # readlines [] cs else readlines (acc @ [c]) cs)"

subsection \<open>The world and the host\<close>

datatype colour = BLUE | YELLOW | RED | GREEN

text \<open>
  The trace records, in order, every \<^verbatim>\<open>print\<close> (with its \<^verbatim>\<open>Fore\<close> colour if any),
  every attempt to launch a command, and every call of \<^verbatim>\<open>os.remove\<close> and
  \<^verbatim>\<open>os.rename\<close>.
\<close>

datatype event =
  Print "colour option" string
| Launch "string list"
| Remove string
| Rename string string

datatype exn =
  FileNotFoundError string
| OSError string
| CalledProcessError int "string list"

text \<open>
  What launching a command leads to: the executable is not found (the message of the
  \<^verbatim>\<open>FileNotFoundError\<close>), or the command cannot be started for another reason (the
  message of the \<^verbatim>\<open>OSError\<close>), or it runs and ends with a return code, having
  written its output; reading that output may fail with an error after the text that was
  read.
\<close>

datatype outcome =
  Not_Found string
| Cannot_Launch string
| Ran int string "string option"

text \<open>
  The files on disk: a path has a content or does not exist.  The host gives what the
  program asks of its surroundings: \<^verbatim>\<open>platform.system()\<close>, \<^verbatim>\<open>os.getcwd()\<close>,
  \<^verbatim>\<open>os.path.isabs\<close> and \<^verbatim>\<open>os.path.join\<close> (which differ between platforms),
  what \<^verbatim>\<open>glob.glob\<close> finds for a pattern in the files as they are, what a launched
  command does (its outcome and the files it leaves), and the text of a
  \<^verbatim>\<open>CalledProcessError\<close>.  Nothing is assumed about any of them.
\<close>

type_synonym files = "string \<rightharpoonup> string"

record world =
  files :: files
  trace :: "event list"

record host =
  platform_system :: string
  os_getcwd :: string
  os_path_isabs :: "string \<Rightarrow> bool"
  os_path_join :: "string \<Rightarrow> string \<Rightarrow> string"
  glob_glob :: "string \<Rightarrow> files \<Rightarrow> string list"
  subprocess :: "string list \<Rightarrow> files \<Rightarrow> outcome \<times> files"
  str_CalledProcessError :: "int \<Rightarrow> string list \<Rightarrow> string"

type_synonym 'a io = "world \<Rightarrow> (exn + 'a) \<times> world"

definition return :: "'a \<Rightarrow> 'a io" where
  "return x w = (Inr x, w)"

definition raise :: "exn \<Rightarrow> 'a io" where
  "raise e w = (Inl e, w)"

definition bind :: "'a io \<Rightarrow> ('a \<Rightarrow> 'b io) \<Rightarrow> 'b io" where
  "bind m f w = (case m w of (Inl e, w') \<Rightarrow> (Inl e, w') | (Inr x, w') \<Rightarrow> f x w')"

definition py_print :: "colour option \<Rightarrow> string \<Rightarrow> unit io" where
  "py_print c m w = (Inr (), w\<lparr>trace := trace w @ [Print c m]\<rparr>)"

definition os_path_exists :: "string \<Rightarrow> world \<Rightarrow> bool" where
  "os_path_exists p w = (files w p \<noteq> None)"

definition no_such_file :: "string \<Rightarrow> exn" where
  "no_such_file p = FileNotFoundError (''[Errno 2] No such file or directory: '' @ quoted p)"

definition no_such_file_2 :: "string \<Rightarrow> string \<Rightarrow> exn" where
  "no_such_file_2 src dst =
     FileNotFoundError
       (''[Errno 2] No such file or directory: '' @ quoted src @ '' -> '' @ quoted dst)"

text \<open>
  \<^verbatim>\<open>os.remove\<close> and \<^verbatim>\<open>os.rename\<close> raise \<^verbatim>\<open>FileNotFoundError\<close> for a path that
  does not exist (the error of \<^verbatim>\<open>os.rename\<close> names both paths); renaming moves the
  content to the new path, replacing what was there.
\<close>

definition os_remove :: "string \<Rightarrow> unit io" where
  "os_remove p w =
     (let w' = w\<lparr>trace := trace w @ [Remove p]\<rparr>
      in if files w p = None then (Inl (no_such_file p), w')
         else (Inr (), w'\<lparr>files := (files w)(p := None)\<rparr>))"

definition os_rename :: "string \<Rightarrow> string \<Rightarrow> unit io" where
  "os_rename src dst w =
     (let w' = w\<lparr>trace := trace w @ [Rename src dst]\<rparr>
      in case files w src of
           None \<Rightarrow> (Inl (no_such_file_2 src dst), w')
         | Some c \<Rightarrow> (Inr (), w'\<lparr>files := ((files w)(src := None))(dst \<mapsto> c)\<rparr>))"

text \<open>Launching a command: the attempt is traced, the host says what happens.\<close>

definition launch :: "host \<Rightarrow> string list \<Rightarrow> world \<Rightarrow> outcome \<times> world" where
  "launch h cmd w =
     (case subprocess h cmd (files w) of
        (r, fs) \<Rightarrow> (r, w\<lparr>files := fs, trace := trace w @ [Launch cmd]\<rparr>))"

text \<open>
  \<^verbatim>\<open>subprocess.run(cmd, check=True, ...)\<close>: returns the output, raises
  \<^verbatim>\<open>CalledProcessError\<close> on a return code other than zero, and the
  \<^verbatim>\<open>FileNotFoundError\<close> or other \<^verbatim>\<open>OSError\<close> when the command cannot be started.
\<close>

definition subprocess_run :: "host \<Rightarrow> string list \<Rightarrow> string io" where
  "subprocess_run h cmd w =
     (case launch h cmd w of
        (Not_Found m, w') \<Rightarrow> (Inl (FileNotFoundError m), w')
      | (Cannot_Launch m, w') \<Rightarrow> (Inl (OSError m), w')
      | (Ran return_code out (Some e), w') \<Rightarrow> (Inl (OSError e), w')
      | (Ran return_code out None, w') \<Rightarrow>
          (if return_code = 0 then (Inr out, w')
           else (Inl (CalledProcessError return_code cmd), w')))"

definition str_exn :: "host \<Rightarrow> exn \<Rightarrow> string" where
  "str_exn h e =
     (case e of
        FileNotFoundError m \<Rightarrow> m
      | OSError m \<Rightarrow> m
      | CalledProcessError return_code cmd \<Rightarrow> str_CalledProcessError h return_code cmd)"

subsection \<open>The class\<close>

record ApkTool =
  apktool_path :: string
  apksigner_path :: string
  zipalign_path :: string
  keystore_path :: string
  keystore_alias :: string
  keystore_password :: string
  include_paths_in_messages :: bool

definition find_tool :: "host \<Rightarrow> string \<Rightarrow> string option io" where
  "find_tool h tool_name w =
     (let cmd = (if platform_system h = ''Windows'' then [''where'', tool_name]
                 else [''which'', tool_name])
      in case subprocess_run h cmd w of
           (Inr out, w') \<Rightarrow>
             (let tool_path = strip out
              in if tool_path = [] then (Inr None, w') else (Inr (Some tool_path), w'))
         | (Inl (CalledProcessError return_code c), w') \<Rightarrow> (Inr None, w')
         | (Inl e, w') \<Rightarrow> (Inl e, w'))"

definition adjust_path :: "host \<Rightarrow> string \<Rightarrow> string" where
  "adjust_path h path =
     (if path \<noteq> [] \<and> \<not> os_path_isabs h path then os_path_join h (os_getcwd h) path
      else path)"

text \<open>
  One tool of \<^verbatim>\<open>__init__\<close>: \<^verbatim>\<open>self._adjust_path(p) if p else self._find_tool(name)\<close>,
  then \<^verbatim>\<open>if not self.x_path: raise FileNotFoundError(...)\<close>.  An argument is false in
  Python when it is \<^verbatim>\<open>None\<close> or the empty string.
\<close>

definition resolve_tool :: "host \<Rightarrow> string option \<Rightarrow> string \<Rightarrow> string io" where
  "resolve_tool h given tool_name =
     bind (case given of
             None \<Rightarrow> find_tool h tool_name
           | Some p \<Rightarrow> if p = [] then find_tool h tool_name
                       else return (Some (adjust_path h p)))
       (\<lambda>found. case found of
             None \<Rightarrow> raise (FileNotFoundError (tool_name @ '' not found in system PATH.''))
           | Some p \<Rightarrow> if p = []
                       then raise (FileNotFoundError (tool_name @ '' not found in system PATH.''))
                       else return p)"

definition init ::
  "host \<Rightarrow> string option \<Rightarrow> string option \<Rightarrow> string option \<Rightarrow> string option \<Rightarrow>
   string \<Rightarrow> string \<Rightarrow> bool \<Rightarrow> ApkTool io" where
  "init h apktool apksigner zipalign keystore alias password include_paths =
     bind (resolve_tool h apktool ''apktool'') (\<lambda>p1.
     bind (resolve_tool h apksigner ''apksigner'') (\<lambda>p2.
     bind (resolve_tool h zipalign ''zipalign'') (\<lambda>p3.
       return \<lparr>apktool_path = p1, apksigner_path = p2, zipalign_path = p3,
         keystore_path =
           (case keystore of
              None \<Rightarrow> os_path_join h (os_path_join h (os_getcwd h) ''SignKey'') ''debug.keystore''
            | Some k \<Rightarrow> if k = []
                then os_path_join h (os_path_join h (os_getcwd h) ''SignKey'') ''debug.keystore''
                else adjust_path h k),
         keystore_alias = alias, keystore_password = password,
         include_paths_in_messages = include_paths\<rparr>)))"

text \<open>
  \<^verbatim>\<open>_print_log\<close>: one line of the output, stripped and printed in the colour of its
  level; the echo of the prompt is dropped.
\<close>

definition print_line :: "string \<Rightarrow> world \<Rightarrow> world" where
  "print_line line w =
     (let decoded_line = strip line
      in if prefix ''I:'' decoded_line then snd (py_print (Some BLUE) decoded_line w)
         else if prefix ''W:'' decoded_line then snd (py_print (Some YELLOW) decoded_line w)
         else if prefix ''E:'' decoded_line then snd (py_print (Some RED) decoded_line w)
         else if \<not> sublist ''Press any key to continue'' decoded_line
           then snd (py_print None decoded_line w)
         else w)"

text \<open>
  The loop over the lines, and the handler of \<^verbatim>\<open>_print_log\<close> for an error while
  reading: the lines read so far are printed, then the error.
\<close>

definition print_log :: "string \<Rightarrow> string option \<Rightarrow> unit io" where
  "print_log out read_error w =
     (let w' = fold print_line (readlines [] out) w
      in case read_error of
           None \<Rightarrow> (Inr (), w')
         | Some e \<Rightarrow> py_print (Some RED) (''Error while reading logs: '' @ e) w')"

text \<open>
  The body of the \<^verbatim>\<open>try\<close> of \<^verbatim>\<open>_run_cmd\<close>.  Without \<^verbatim>\<open>show_log\<close> the output is
  consumed by \<^verbatim>\<open>process.communicate()\<close>, where an error while reading is raised.
\<close>

definition run_cmd_try ::
  "host \<Rightarrow> ApkTool \<Rightarrow> string list \<Rightarrow> bool \<Rightarrow> string option \<Rightarrow> unit io" where
  "run_cmd_try h self cmd show_log success_message w =
     (case launch h cmd w of
        (Not_Found m, w1) \<Rightarrow> (Inl (FileNotFoundError m), w1)
      | (Cannot_Launch m, w1) \<Rightarrow> (Inl (OSError m), w1)
      | (Ran return_code out read_error, w1) \<Rightarrow>
          bind (if show_log then print_log out read_error
                else (case read_error of None \<Rightarrow> return () | Some e \<Rightarrow> raise (OSError e)))
            (\<lambda>_. if return_code = 0 then
                    (case success_message of
                       None \<Rightarrow> return ()
                     | Some m \<Rightarrow>
                         if m = [] then return ()
                         else if include_paths_in_messages self then py_print (Some GREEN) m
                         else py_print (Some GREEN) (strip (split_quote_0 m)))
                  else
                    (let error_message = ''Command failed with return code '' @ str_int return_code
                     in py_print (Some RED)
                          (if \<not> include_paths_in_messages self then split_quote_0 error_message
                           else error_message)))
            w1)"

text \<open>\<^verbatim>\<open>_run_cmd\<close>: the \<^verbatim>\<open>try\<close> with its handler \<^verbatim>\<open>except Exception as e\<close>.\<close>

definition run_cmd ::
  "host \<Rightarrow> ApkTool \<Rightarrow> string list \<Rightarrow> bool \<Rightarrow> string option \<Rightarrow> unit io" where
  "run_cmd h self cmd show_log success_message w =
     (case run_cmd_try h self cmd show_log success_message w of
        (Inr u, w') \<Rightarrow> (Inr u, w')
      | (Inl e, w') \<Rightarrow>
          (let error_message = ''Error during command execution: '' @ str_exn h e
           in py_print (Some RED)
                (if \<not> include_paths_in_messages self then split_quote_0 error_message
                 else error_message) w'))"

text \<open>The argument lists that \<^verbatim>\<open>_sign_apk\<close> and \<^verbatim>\<open>_zipalign_apk\<close> build.\<close>

definition apksigner_cmd :: "ApkTool \<Rightarrow> string \<Rightarrow> string list" where
  "apksigner_cmd self apk_path =
     [apksigner_path self, ''sign'',
      ''--ks'', keystore_path self,
      ''--ks-key-alias'', keystore_alias self,
      ''--ks-pass'', ''pass:'' @ keystore_password self,
      ''--key-pass'', ''pass:'' @ keystore_password self,
      ''--v4-signing-enabled'', ''false'',
      apk_path]"

definition aligned_apk_path :: "string \<Rightarrow> string" where
  "aligned_apk_path apk_path = replace ''.apk'' ''_aligned.apk'' apk_path"

definition zipalign_cmd :: "ApkTool \<Rightarrow> string \<Rightarrow> string list" where
  "zipalign_cmd self apk_path =
     [zipalign_path self, ''-v'', ''4'', apk_path, aligned_apk_path apk_path]"

definition sign_apk :: "host \<Rightarrow> ApkTool \<Rightarrow> string \<Rightarrow> bool io" where
  "sign_apk h self apk_path w =
     (if \<not> os_path_exists (keystore_path self) w then
        bind (py_print (Some RED)
                (if \<not> include_paths_in_messages self then ''Keystore not found.''
                 else ''Keystore not found at '' @ keystore_path self))
          (\<lambda>_. return False) w
      else
        (case subprocess_run h (apksigner_cmd self apk_path) w of
           (Inr out, w') \<Rightarrow>
             bind (py_print (Some GREEN)
                     (if include_paths_in_messages self
                      then ''Successfully signed '' @ quoted apk_path @
                           '' with keystore '' @ quoted (keystore_path self) @ ''.''
                      else ''Successfully signed.''))
               (\<lambda>_. return True) w'
         | (Inl (CalledProcessError return_code c), w') \<Rightarrow>
             bind (py_print (Some RED)
                     (if \<not> include_paths_in_messages self then ''Failed to sign APK.''
                      else ''Failed to sign APK: '' @
                           str_exn h (CalledProcessError return_code c)))
               (\<lambda>_. return False) w'
         | (Inl e, w') \<Rightarrow> (Inl e, w')))"

definition zipalign_apk :: "host \<Rightarrow> ApkTool \<Rightarrow> string \<Rightarrow> unit io" where
  "zipalign_apk h self apk_path w =
     (case subprocess_run h (zipalign_cmd self apk_path) w of
        (Inr out, w') \<Rightarrow>
          bind (os_remove apk_path) (\<lambda>_.
          bind (os_rename (aligned_apk_path apk_path) apk_path) (\<lambda>_.
            py_print (Some GREEN)
              (if include_paths_in_messages self
               then ''Successfully zipaligned '' @ quoted apk_path @ ''.''
               else ''Successfully zipaligned.''))) w'
      | (Inl (CalledProcessError return_code c), w') \<Rightarrow>
          py_print (Some RED)
            (if \<not> include_paths_in_messages self then ''Failed to zipalign APK.''
             else ''Failed to zipalign APK: '' @
                  str_exn h (CalledProcessError return_code c)) w'
      | (Inl e, w') \<Rightarrow> (Inl e, w'))"

definition decompile_cmd ::
  "host \<Rightarrow> ApkTool \<Rightarrow> string \<Rightarrow> string option \<Rightarrow> bool \<Rightarrow> string list" where
  "decompile_cmd h self apk_path0 output_dir0 force =
     (let apk_path = adjust_path h apk_path0;
          output_dir = (case output_dir0 of
                          None \<Rightarrow> None
                        | Some d \<Rightarrow> if d = [] then None else Some (adjust_path h d))
      in [apktool_path self, ''d'', apk_path]
         @ (if force then [''-f''] else [])
         @ (case output_dir of
              None \<Rightarrow> []
            | Some d \<Rightarrow> if d = [] then [] else [''-o'', d]))"

definition decompile ::
  "host \<Rightarrow> ApkTool \<Rightarrow> string \<Rightarrow> string option \<Rightarrow> bool \<Rightarrow> bool \<Rightarrow> unit io" where
  "decompile h self apk_path0 output_dir0 force show_log =
     (let apk_path = adjust_path h apk_path0;
          cmd = decompile_cmd h self apk_path0 output_dir0 force;
          success_message = ''Successfully decompiled '' @ quoted apk_path
      in run_cmd h self cmd show_log (Some success_message))"

text \<open>
  The first lines of \<^verbatim>\<open>build\<close>: the folder, the output path (the caller's, or the
  folder's name followed by \<^verbatim>\<open>_Signed.apk\<close>) and the command.
\<close>

definition build_output_apk :: "host \<Rightarrow> string \<Rightarrow> string option \<Rightarrow> string" where
  "build_output_apk h folder_path0 output_apk0 =
     (let folder_path = adjust_path h folder_path0
      in case output_apk0 of
           None \<Rightarrow> folder_path @ ''_Signed.apk''
         | Some p \<Rightarrow> if p = [] then folder_path @ ''_Signed.apk'' else adjust_path h p)"

definition build_cmd ::
  "host \<Rightarrow> ApkTool \<Rightarrow> string \<Rightarrow> string option \<Rightarrow> bool \<Rightarrow> string list" where
  "build_cmd h self folder_path0 output_apk0 force =
     (let folder_path = adjust_path h folder_path0;
          output_apk = build_output_apk h folder_path0 output_apk0
      in [apktool_path self, ''b'', folder_path]
         @ (if force then [''-f''] else [])
         @ (if output_apk \<noteq> [] then [''-o'', output_apk] else []))"

text \<open>
  The path of the built APK (lines 224 to 236): the output path when it exists, else the
  first file that \<^verbatim>\<open>glob\<close> finds in the folder's \<^verbatim>\<open>dist\<close>, else none.
\<close>

definition dist_apk_files :: "host \<Rightarrow> string \<Rightarrow> world \<Rightarrow> string list" where
  "dist_apk_files h folder_path0 w =
     (let folder_path = adjust_path h folder_path0;
          dist_dir = os_path_join h folder_path ''dist''
      in glob_glob h (os_path_join h dist_dir ''*.apk'') (files w))"

definition built_apk :: "host \<Rightarrow> string \<Rightarrow> string option \<Rightarrow> world \<Rightarrow> string option" where
  "built_apk h folder_path0 output_apk0 w =
     (let output_apk = build_output_apk h folder_path0 output_apk0
      in if output_apk \<noteq> [] \<and> os_path_exists output_apk w then Some output_apk
         else
           (case dist_apk_files h folder_path0 w of
              [] \<Rightarrow> None
            | apk_path # rest \<Rightarrow> Some apk_path))"

definition build ::
  "host \<Rightarrow> ApkTool \<Rightarrow> string \<Rightarrow> string option \<Rightarrow> bool \<Rightarrow> bool \<Rightarrow> unit io" where
  "build h self folder_path0 output_apk0 force show_log =
     (let folder_path = adjust_path h folder_path0;
          cmd = build_cmd h self folder_path0 output_apk0 force;
          success_message = ''Successfully built '' @ quoted folder_path
      in bind (run_cmd h self cmd show_log (Some success_message)) (\<lambda>_ w.
           case built_apk h folder_path0 output_apk0 w of
             None \<Rightarrow>
               py_print (Some RED)
                 (if \<not> include_paths_in_messages self then ''No APK file found after build.''
                  else ''No APK file found in dist directory after build.'') w
           | Some apk_path \<Rightarrow>
               bind (sign_apk h self apk_path) (\<lambda>signed.
                 if signed then zipalign_apk h self apk_path else return ()) w))"

definition install_framework_cmd ::
  "host \<Rightarrow> ApkTool \<Rightarrow> string \<Rightarrow> string option \<Rightarrow> bool \<Rightarrow> string list" where
  "install_framework_cmd h self apk_path0 tag force =
     (let apk_path = adjust_path h apk_path0
      in [apktool_path self, ''if'', apk_path]
         @ (if force then [''-f''] else [])
         @ (case tag of
              None \<Rightarrow> []
            | Some t \<Rightarrow> if t = [] then [] else [''-t'', t]))"

definition install_framework ::
  "host \<Rightarrow> ApkTool \<Rightarrow> string \<Rightarrow> string option \<Rightarrow> bool \<Rightarrow> bool \<Rightarrow> unit io" where
  "install_framework h self apk_path0 tag force show_log =
     (let apk_path = adjust_path h apk_path0;
          cmd = install_framework_cmd h self apk_path0 tag force;
          success_message = ''Successfully installed framework from '' @ quoted apk_path
      in run_cmd h self cmd show_log (Some success_message))"

definition empty_framework_dir :: "host \<Rightarrow> ApkTool \<Rightarrow> bool \<Rightarrow> unit io" where
  "empty_framework_dir h self show_log =
     (let cmd = [apktool_path self, ''empty-framework-dir''];
          success_message = ''Successfully emptied the apktool framework directory''
      in run_cmd h self cmd show_log (Some success_message))"

text \<open>
  Two stretches of \<^verbatim>\<open>build\<close>, named so that statements can speak of them: the world
  after the build command was run (line 221), and the last lines (239 to 242), which sign
  the artifact and align it if it was signed.
\<close>

definition after_build_cmd ::
  "host \<Rightarrow> ApkTool \<Rightarrow> string \<Rightarrow> string option \<Rightarrow> bool \<Rightarrow> bool \<Rightarrow> world \<Rightarrow> world" where
  "after_build_cmd h self folder_path0 output_apk0 force show_log w =
     snd (run_cmd h self (build_cmd h self folder_path0 output_apk0 force) show_log
            (Some (''Successfully built '' @ quoted (adjust_path h folder_path0))) w)"

definition sign_then_align :: "host \<Rightarrow> ApkTool \<Rightarrow> string \<Rightarrow> unit io" where
  "sign_then_align h self apk_path =
     bind (sign_apk h self apk_path) (\<lambda>signed.
       if signed then zipalign_apk h self apk_path else return ())"

text \<open>
  For statements about \<^verbatim>\<open>__init__\<close>: an argument that Python takes as false, and
  the lookup command of \<^verbatim>\<open>_find_tool\<close>.
\<close>

definition omitted :: "string option \<Rightarrow> bool" where
  "omitted given = (given = None \<or> given = Some [])"

definition lookup_cmd :: "host \<Rightarrow> string \<Rightarrow> string list" where
  "lookup_cmd h tool_name =
     (if platform_system h = ''Windows'' then [''where'', tool_name] else [''which'', tool_name])"

subsection \<open>Reading the trace\<close>

text \<open>
  What the log of a launched command can make \<^verbatim>\<open>_print_log\<close> print: its lines,
  stripped, and the message for an error while reading.
\<close>

definition log_messages :: "outcome \<Rightarrow> string list" where
  "log_messages r =
     (case r of
        Not_Found m \<Rightarrow> []
      | Cannot_Launch m \<Rightarrow> []
      | Ran return_code out read_error \<Rightarrow>
          map strip (readlines [] out)
          @ (case read_error of None \<Rightarrow> [] | Some e \<Rightarrow> [''Error while reading logs: '' @ e]))"

text \<open>The events that a method added to the trace of the world it started in.\<close>

definition events_since :: "world \<Rightarrow> world \<Rightarrow> event list" where
  "events_since w w' = drop (length (trace w)) (trace w')"

definition messages :: "event list \<Rightarrow> string list" where
  "messages es = concat (map (\<lambda>e. case e of Print c m \<Rightarrow> [m] | _ \<Rightarrow> []) es)"

definition commands :: "event list \<Rightarrow> string list list" where
  "commands es = concat (map (\<lambda>e. case e of Launch cmd \<Rightarrow> [cmd] | _ \<Rightarrow> []) es)"

text \<open>
  The messages as C8 describes them, for an instance that keeps paths out of its messages.
  Of the log, \<^verbatim>\<open>show_log\<close> shows every line, stripped, but the echo of the prompt (a
  line without a level that contains the prompt), and then the error met while reading, if
  any.  The command runner prints the shown log, if asked to, and one status message: the
  text before the first single quote of the full message, which is the error message, the
  success message (stripped) or the message of the return code.  The other messages are
  fixed short forms.
\<close>

definition shown :: "string \<Rightarrow> bool" where
  "shown l = (prefix ''I:'' l \<or> prefix ''W:'' l \<or> prefix ''E:'' l \<or>
              \<not> sublist ''Press any key to continue'' l)"

definition shown_log :: "string \<Rightarrow> string option \<Rightarrow> string list" where
  "shown_log out read_error =
     filter shown (map strip (readlines [] out))
     @ (case read_error of None \<Rightarrow> [] | Some e \<Rightarrow> [''Error while reading logs: '' @ e])"

definition short_runner_messages ::
  "host \<Rightarrow> string list \<Rightarrow> bool \<Rightarrow> string \<Rightarrow> files \<Rightarrow> string list" where
  "short_runner_messages h cmd show_log full_success_message fs =
     (case fst (subprocess h cmd fs) of
        Not_Found e \<Rightarrow> [split_quote_0 (''Error during command execution: '' @ e)]
      | Cannot_Launch e \<Rightarrow> [split_quote_0 (''Error during command execution: '' @ e)]
      | Ran return_code out read_error \<Rightarrow>
          (if show_log then
             shown_log out read_error
             @ (if return_code = 0 then [strip (split_quote_0 full_success_message)]
                else [split_quote_0 (''Command failed with return code '' @ str_int return_code)])
           else
             (case read_error of
                Some e \<Rightarrow> [split_quote_0 (''Error during command execution: '' @ e)]
              | None \<Rightarrow>
                  if return_code = 0 then [strip (split_quote_0 full_success_message)]
                  else [split_quote_0
                          (''Command failed with return code '' @ str_int return_code)])))"

definition short_forms :: "string list" where
  "short_forms =
     [''Keystore not found.'', ''Successfully signed.'', ''Failed to sign APK.'',
      ''Successfully zipaligned.'', ''Failed to zipalign APK.'',
      ''No APK file found after build.'']"

subsection \<open>A host and an instance to run the methods on\<close>

text \<open>
  \<^verbatim>\<open>os.path.isabs\<close> and \<^verbatim>\<open>os.path.join\<close> as they are on a POSIX system, a host made
  of them whose working directory is \<^verbatim>\<open>/w\<close>, and an instance whose tools are in
  \<^verbatim>\<open>/opt\<close>.
\<close>

definition posix_isabs :: "string \<Rightarrow> bool" where
  "posix_isabs p = prefix ''/'' p"

definition posix_join :: "string \<Rightarrow> string \<Rightarrow> string" where
  "posix_join a b =
     (if prefix ''/'' b then b
      else if a = [] \<or> suffix ''/'' a then a @ b
      else a @ ''/'' @ b)"

definition posix_host ::
  "(string list \<Rightarrow> files \<Rightarrow> outcome \<times> files) \<Rightarrow> (string \<Rightarrow> files \<Rightarrow> string list) \<Rightarrow> host" where
  "posix_host sp g =
     \<lparr>platform_system = ''Linux'', os_getcwd = ''/w'',
      os_path_isabs = posix_isabs, os_path_join = posix_join,
      glob_glob = g, subprocess = sp,
      str_CalledProcessError = (\<lambda>return_code cmd.
        ''Command '' @ quoted (concat cmd) @ '' returned non-zero exit status '' @
        str_int return_code @ ''.'')\<rparr>"

definition demo_tool :: ApkTool where
  "demo_tool =
     \<lparr>apktool_path = ''/opt/apktool'', apksigner_path = ''/opt/apksigner'',
      zipalign_path = ''/opt/zipalign'', keystore_path = ''/w/SignKey/debug.keystore'',
      keystore_alias = ''androiddebugkey'', keystore_password = ''android'',
      include_paths_in_messages = False\<rparr>"

definition world_of :: "(string \<times> string) list \<Rightarrow> world" where
  "world_of fs = \<lparr>files = map_of fs, trace = []\<rparr>"

text \<open>
  External tools to run the methods against: the build command writes the file named by
  its last argument when it succeeds, the signer and the aligner do the same; the return
  codes of the build command and of the signer are parameters.
\<close>

definition sim_tools :: "int \<Rightarrow> int \<Rightarrow> string list \<Rightarrow> files \<Rightarrow> outcome \<times> files" where
  "sim_tools build_rc sign_rc cmd fs =
     (if take 2 cmd = [''/opt/apktool'', ''b'']
        then (Ran build_rc [] None, if build_rc = 0 then fs(last cmd \<mapsto> ''unsigned'') else fs)
      else if take 2 cmd = [''/opt/apksigner'', ''sign'']
        then (Ran sign_rc [] None, if sign_rc = 0 then fs(last cmd \<mapsto> ''signed'') else fs)
      else if take 1 cmd = [''/opt/zipalign'']
        then (Ran 0 [] None, fs(last cmd \<mapsto> ''aligned''))
      else (Ran 1 [] None, fs))"

text \<open>A \<^verbatim>\<open>glob\<close> that finds the given files in \<^verbatim>\<open>/w/proj/dist\<close> and nothing elsewhere.\<close>

definition dist_glob :: "string list \<Rightarrow> string \<Rightarrow> files \<Rightarrow> string list" where
  "dist_glob found pattern fs = (if pattern = ''/w/proj/dist/*.apk'' then found else [])"

text \<open>
  Tools of which one cannot be launched, and a decompiler whose log names a file in
  quotes.
\<close>

definition unlaunchable :: "string \<Rightarrow> string list \<Rightarrow> files \<Rightarrow> outcome \<times> files" where
  "unlaunchable tool cmd fs =
     (if take 1 cmd = [tool]
        then (Not_Found (''[Errno 2] No such file or directory: '' @ quoted tool), fs)
      else sim_tools 0 0 cmd fs)"

definition chatty_tools :: "string list \<Rightarrow> files \<Rightarrow> outcome \<times> files" where
  "chatty_tools cmd fs =
     (Ran 0 (''I: Copying assets of '' @ quoted ''/w/app.apk'' @ [CHR 0x0A]) None, fs)"

text \<open>Tools with a \<^verbatim>\<open>which\<close> that finds every tool in \<^verbatim>\<open>/usr/bin\<close>.\<close>

definition which_tools :: "string list \<Rightarrow> files \<Rightarrow> outcome \<times> files" where
  "which_tools cmd fs =
     (if take 1 cmd = [''which''] then (Ran 0 (''/usr/bin/'' @ last cmd @ [CHR 0x0A]) None, fs)
      else sim_tools 0 0 cmd fs)"

section \<open>What the printing and the command runner add to the trace\<close>

lemma events_since_append [simp]: "trace w' = trace w @ es \<Longrightarrow> events_since w w' = es"
  by (simp add: events_since_def)

lemma quote_free_split [simp]: "quote \<notin> set (split_quote_0 s)"
  by (auto simp: split_quote_0_def dest: set_takeWhileD)

lemma set_strip: "set (strip s) \<subseteq> set s"
  by (auto simp: strip_def dest!: set_dropWhileD)

lemma quote_free_strip_split [simp]: "quote \<notin> set (strip (split_quote_0 s))"
  using set_strip [of "split_quote_0 s"] quote_free_split [of s] by blast

lemma print_line_effect:
  "\<exists>ps. trace (print_line l w) = trace w @ ps \<and> files (print_line l w) = files w
        \<and> (\<forall>e\<in>set ps. \<exists>c. e = Print c (strip l))"
  by (simp add: print_line_def Let_def py_print_def)

lemma fold_print_line_effect:
  "\<exists>ps. trace (fold print_line ls w) = trace w @ ps \<and> files (fold print_line ls w) = files w
        \<and> (\<forall>e\<in>set ps. \<exists>c m. e = Print c m \<and> m \<in> strip ` set ls)"
proof (induction ls arbitrary: w)
  case Nil
  show ?case by simp
next
  case (Cons l ls)
  obtain ps where ps: "trace (print_line l w) = trace w @ ps" "files (print_line l w) = files w"
      "\<forall>e\<in>set ps. \<exists>c. e = Print c (strip l)"
    using print_line_effect [of l w] by blast
  obtain qs where qs: "trace (fold print_line ls (print_line l w)) = trace (print_line l w) @ qs"
      "files (fold print_line ls (print_line l w)) = files (print_line l w)"
      "\<forall>e\<in>set qs. \<exists>c m. e = Print c m \<and> m \<in> strip ` set ls"
    using Cons.IH [of "print_line l w"] by blast
  have "trace (fold print_line (l # ls) w) = trace w @ (ps @ qs)"
    using ps qs by simp
  moreover have "files (fold print_line (l # ls) w) = files w"
    using ps qs by simp
  moreover have "\<forall>e\<in>set (ps @ qs). \<exists>c m. e = Print c m \<and> m \<in> strip ` set (l # ls)"
    using ps(3) qs(3) by auto
  ultimately show ?case by blast
qed

lemma print_log_effect:
  "\<exists>w' ps. print_log out re w = (Inr (), w') \<and> trace w' = trace w @ ps \<and> files w' = files w
        \<and> (\<forall>e\<in>set ps. \<exists>c m. e = Print c m \<and> m \<in> set (log_messages (Ran rc out re)))"
proof -
  obtain ps where ps: "trace (fold print_line (readlines [] out) w) = trace w @ ps"
      "files (fold print_line (readlines [] out) w) = files w"
      "\<forall>e\<in>set ps. \<exists>c m. e = Print c m \<and> m \<in> strip ` set (readlines [] out)"
    using fold_print_line_effect [of "readlines [] out" w] by blast
  show ?thesis
  proof (cases re)
    case None
    with ps show ?thesis
      by (simp add: print_log_def Let_def log_messages_def)
  next
    case (Some e)
    have "\<forall>x\<in>set (ps @ [Print (Some RED) (''Error while reading logs: '' @ e)]).
            \<exists>c m. x = Print c m \<and> m \<in> set (log_messages (Ran rc out re))"
      using ps(3) Some by (auto simp: log_messages_def)
    with ps Some show ?thesis
      by (simp add: print_log_def Let_def py_print_def)
  qed
qed

lemma run_cmd_effect:
  "\<exists>w' ps. run_cmd h self cmd show_log success_message w = (Inr (), w')
        \<and> trace w' = trace w @ Launch cmd # ps
        \<and> files w' = snd (subprocess h cmd (files w))
        \<and> (\<forall>e\<in>set ps. \<exists>c m. e = Print c m \<and>
              (\<not> include_paths_in_messages self \<longrightarrow>
                 quote \<notin> set m \<or>
                 (show_log \<and> m \<in> set (log_messages (fst (subprocess h cmd (files w)))))))"
proof (cases "subprocess h cmd (files w)")
  case (Pair r fs)
  define w1 where "w1 = w\<lparr>files := fs, trace := trace w @ [Launch cmd]\<rparr>"
  have l: "launch h cmd w = (r, w1)"
    using Pair by (simp add: launch_def w1_def)
  show ?thesis
  proof (cases r)
    case (Not_Found m)
    with l Pair show ?thesis
      by (simp add: run_cmd_def run_cmd_try_def py_print_def Let_def w1_def)
  next
    case (Cannot_Launch m)
    with l Pair show ?thesis
      by (simp add: run_cmd_def run_cmd_try_def py_print_def Let_def w1_def)
  next
    case (Ran rc out re)
    show ?thesis
    proof (cases show_log)
      case True
      obtain w2 ps where p: "print_log out re w1 = (Inr (), w2)" "trace w2 = trace w1 @ ps"
          "files w2 = files w1"
          "\<forall>e\<in>set ps. \<exists>c m. e = Print c m \<and> m \<in> set (log_messages (Ran rc out re))"
        using print_log_effect [of out re w1 rc] by blast
      with l Pair Ran True show ?thesis
        by (auto simp: run_cmd_def run_cmd_try_def bind_def return_def py_print_def Let_def w1_def
                 split: option.splits)
    next
      case False
      with l Pair Ran show ?thesis
        by (auto simp: run_cmd_def run_cmd_try_def bind_def return_def raise_def py_print_def
                   Let_def w1_def split: option.splits)
    qed
  qed
qed

lemma subprocess_run_effect:
  "\<exists>r w'. subprocess_run h cmd w = (r, w') \<and> trace w' = trace w @ [Launch cmd]
        \<and> files w' = snd (subprocess h cmd (files w))"
  by (cases "subprocess h cmd (files w)")
     (auto simp: subprocess_run_def launch_def split: outcome.splits option.splits)

lemma sign_apk_effect:
  assumes "sign_apk h self apk_path w = (r, w')"
  shows "\<exists>ps. trace w' = trace w
                  @ (if os_path_exists (keystore_path self) w
                     then [Launch (apksigner_cmd self apk_path)] else [])
                  @ ps
        \<and> (\<forall>e\<in>set ps. \<exists>c m. e = Print c m \<and>
              (\<not> include_paths_in_messages self \<longrightarrow> quote \<notin> set m))"
proof (cases "os_path_exists (keystore_path self) w")
  case False
  with assms show ?thesis
    by (auto simp: sign_apk_def bind_def return_def py_print_def quote_def)
next
  case True
  obtain r1 w1 where s: "subprocess_run h (apksigner_cmd self apk_path) w = (r1, w1)"
      "trace w1 = trace w @ [Launch (apksigner_cmd self apk_path)]"
    using subprocess_run_effect [of h "apksigner_cmd self apk_path" w] by blast
  with assms True show ?thesis
    by (auto simp: sign_apk_def bind_def return_def py_print_def quote_def
             split: sum.splits exn.splits)
qed

lemma zipalign_apk_effect:
  assumes "zipalign_apk h self apk_path w = (r, w')"
  shows "\<exists>es. trace w' = trace w @ Launch (zipalign_cmd self apk_path) # es
        \<and> (\<forall>e\<in>set es. e = Remove apk_path \<or> e = Rename (aligned_apk_path apk_path) apk_path \<or>
              (\<exists>c m. e = Print c m \<and> (\<not> include_paths_in_messages self \<longrightarrow> quote \<notin> set m)))"
proof -
  obtain r1 w1 where s: "subprocess_run h (zipalign_cmd self apk_path) w = (r1, w1)"
      "trace w1 = trace w @ [Launch (zipalign_cmd self apk_path)]"
    using subprocess_run_effect [of h "zipalign_cmd self apk_path" w] by blast
  with assms show ?thesis
    by (auto simp: zipalign_apk_def bind_def return_def py_print_def quote_def
               os_remove_def os_rename_def Let_def
             split: sum.splits exn.splits option.splits if_splits)
qed

lemma build_unfold:
  "build h self fp out force sl w =
     (case built_apk h fp out (after_build_cmd h self fp out force sl w) of
        None \<Rightarrow>
          py_print (Some RED)
            (if \<not> include_paths_in_messages self then ''No APK file found after build.''
             else ''No APK file found in dist directory after build.'')
            (after_build_cmd h self fp out force sl w)
      | Some apk_path \<Rightarrow>
          sign_then_align h self apk_path (after_build_cmd h self fp out force sl w))"
proof -
  obtain w1 where "run_cmd h self (build_cmd h self fp out force) sl
      (Some (''Successfully built '' @ quoted (adjust_path h fp))) w = (Inr (), w1)"
    using run_cmd_effect [of h self "build_cmd h self fp out force" sl
      "Some (''Successfully built '' @ quoted (adjust_path h fp))" w] by blast
  then show ?thesis
    by (simp add: build_def bind_def after_build_cmd_def sign_then_align_def Let_def
          split: option.splits)
qed

lemma after_build_cmd_effect:
  "\<exists>ps. trace (after_build_cmd h self fp out force sl w)
          = trace w @ Launch (build_cmd h self fp out force) # ps
      \<and> files (after_build_cmd h self fp out force sl w)
          = snd (subprocess h (build_cmd h self fp out force) (files w))
      \<and> (\<forall>e\<in>set ps. \<exists>c m. e = Print c m \<and>
              (\<not> include_paths_in_messages self \<longrightarrow>
                 quote \<notin> set m \<or>
                 (sl \<and> m \<in> set (log_messages
                     (fst (subprocess h (build_cmd h self fp out force) (files w)))))))"
  using run_cmd_effect [of h self "build_cmd h self fp out force" sl
      "Some (''Successfully built '' @ quoted (adjust_path h fp))" w]
  unfolding after_build_cmd_def by fastforce

lemma commands_append [simp]: "commands (es @ fs) = commands es @ commands fs"
  by (simp add: commands_def)

lemma commands_Launch [simp]: "commands (Launch cmd # es) = cmd # commands es"
  by (simp add: commands_def)

lemma commands_Nil [simp]: "commands [] = []"
  by (simp add: commands_def)

lemma commands_prints: "\<forall>e\<in>set ps. \<exists>c m. e = Print c m \<and> P c m \<Longrightarrow> commands ps = []"
  by (induction ps) (auto simp: commands_def)

lemma commands_not_launch:
  "\<forall>e\<in>set es. \<not> (\<exists>cmd. e = Launch cmd) \<Longrightarrow> commands es = []"
  by (induction es) (auto simp: commands_def split: event.splits)

lemma sign_apk_commands:
  "commands (events_since w (snd (sign_apk h self apk w)))
     = (if os_path_exists (keystore_path self) w then [apksigner_cmd self apk] else [])"
proof -
  obtain r w' where s: "sign_apk h self apk w = (r, w')"
    by (cases "sign_apk h self apk w")
  from sign_apk_effect [OF s] obtain ps where
    "trace w' = trace w @ (if os_path_exists (keystore_path self) w
        then [Launch (apksigner_cmd self apk)] else []) @ ps"
    "\<forall>e\<in>set ps. \<exists>c m. e = Print c m \<and> (\<not> include_paths_in_messages self \<longrightarrow> quote \<notin> set m)"
    by blast
  then show ?thesis
    using s commands_prints [of ps] by (simp add: events_since_def)
qed

lemma zipalign_apk_commands:
  "commands (events_since w (snd (zipalign_apk h self apk w))) = [zipalign_cmd self apk]"
proof -
  obtain r w' where s: "zipalign_apk h self apk w = (r, w')"
    by (cases "zipalign_apk h self apk w")
  from zipalign_apk_effect [OF s] obtain es where es:
    "trace w' = trace w @ Launch (zipalign_cmd self apk) # es"
    "\<forall>e\<in>set es. e = Remove apk \<or> e = Rename (aligned_apk_path apk) apk \<or>
       (\<exists>c m. e = Print c m \<and> (\<not> include_paths_in_messages self \<longrightarrow> quote \<notin> set m))"
    by blast
  have "commands es = []"
    by (rule commands_not_launch) (use es(2) in auto)
  with es(1) s show ?thesis
    by (simp add: events_since_def)
qed

lemma commands_Print [simp]: "commands (Print c m # es) = commands es"
  by (simp add: commands_def)

lemma commands_Remove [simp]: "commands (Remove p # es) = commands es"
  by (simp add: commands_def)

lemma commands_Rename [simp]: "commands (Rename p q # es) = commands es"
  by (simp add: commands_def)

lemma replace_Nil: "old \<noteq> [] \<Longrightarrow> replace old new [] = []"
  by (simp add: replace.simps)

lemma replace_Cons:
  "old \<noteq> [] \<Longrightarrow> replace old new (c # cs) =
     (if prefix old (c # cs) then new @ replace old new (drop (length old) (c # cs))
      else c # replace old new cs)"
  by (subst replace.simps) simp

lemmas eval_defs =
  decompile_def decompile_cmd_def install_framework_def install_framework_cmd_def
  empty_framework_dir_def print_log_def print_line_def
  build_def build_cmd_def build_output_apk_def built_apk_def dist_apk_files_def adjust_path_def
  run_cmd_def run_cmd_try_def launch_def subprocess_run_def
  sign_apk_def zipalign_apk_def apksigner_cmd_def zipalign_cmd_def aligned_apk_path_def
  os_remove_def os_rename_def os_path_exists_def py_print_def no_such_file_def
  no_such_file_2_def
  bind_def return_def raise_def
  posix_host_def posix_isabs_def posix_join_def demo_tool_def world_of_def sim_tools_def
  events_since_def commands_def split_quote_0_def strip_def isspace_def quoted_def quote_def
  replace_Nil replace_Cons Let_def suffix_to_prefix

lemma build_trace:
  "\<exists>es. trace (snd (build h self fp out force sl w))
          = trace w @ Launch (build_cmd h self fp out force) # es"
proof -
  define w1 where "w1 = after_build_cmd h self fp out force sl w"
  obtain ps where ps: "trace w1 = trace w @ Launch (build_cmd h self fp out force) # ps"
    using after_build_cmd_effect [of h self fp out force sl w] unfolding w1_def by blast
  have "\<exists>qs. trace (snd (build h self fp out force sl w)) = trace w1 @ qs"
  proof (cases "built_apk h fp out w1")
    case None
    then show ?thesis
      by (simp add: build_unfold w1_def [symmetric] py_print_def)
  next
    case (Some apk)
    obtain r w2 where s: "sign_apk h self apk w1 = (r, w2)"
      by (cases "sign_apk h self apk w1")
    obtain qs where qs: "trace w2 = trace w1 @ qs"
      using sign_apk_effect [OF s] by blast
    obtain r3 w3 where z: "zipalign_apk h self apk w2 = (r3, w3)"
      by (cases "zipalign_apk h self apk w2")
    obtain es where es: "trace w3 = trace w2 @ es"
      using zipalign_apk_effect [OF z] by blast
    show ?thesis
      using Some s qs z es
      by (cases r) (auto simp: build_unfold w1_def [symmetric] sign_then_align_def bind_def return_def)
  qed
  with ps show ?thesis by auto
qed

text \<open>Facts about \<^verbatim>\<open>str.replace\<close> and the aligned path.\<close>

lemma replace_absent:
  "old \<noteq> [] \<Longrightarrow> \<not> sublist old s \<Longrightarrow> replace old new s = s"
  by (induction s) (simp_all add: replace_Nil replace_Cons sublist_Cons_right)

lemma apk_straddle:
  assumes "prefix ''.apk'' (a @ ''.apk'' @ b)" and "a \<noteq> []"
  shows "prefix ''.apk'' a"
proof (cases a)
  case Nil
  with assms show ?thesis by simp
next
  case a1: (Cons x1 r1)
  show ?thesis
  proof (cases r1)
    case Nil
    with a1 assms show ?thesis by simp
  next
    case a2: (Cons x2 r2)
    show ?thesis
    proof (cases r2)
      case Nil
      with a1 a2 assms show ?thesis by simp
    next
      case a3: (Cons x3 r3)
      show ?thesis
      proof (cases r3)
        case Nil
        with a1 a2 a3 assms show ?thesis by simp
      next
        case (Cons x4 r4)
        with a1 a2 a3 assms show ?thesis by simp
      qed
    qed
  qed
qed

lemma replace_first:
  assumes "old \<noteq> []" and "\<not> sublist old a"
    and straddle: "\<And>a' b'. a' \<noteq> [] \<Longrightarrow> prefix old (a' @ old @ b') \<Longrightarrow> prefix old a'"
  shows "replace old new (a @ old @ b) = a @ new @ replace old new b"
  using assms(2)
proof (induction a)
  case Nil
  have "replace old new (old @ b) = new @ replace old new (drop (length old) (old @ b))"
    using assms(1) by (cases old) (simp_all add: replace_Cons)
  then show ?case by simp
next
  case (Cons c cs)
  then have n: "\<not> prefix old (c # cs)" "\<not> sublist old cs"
    by (simp_all add: sublist_Cons_right)
  have "\<not> prefix old ((c # cs) @ old @ b)"
    using straddle [of "c # cs" b] n(1) by blast
  then have "replace old new (c # (cs @ old @ b)) = c # replace old new (cs @ old @ b)"
    using assms(1) by (simp add: replace_Cons)
  with Cons.IH [OF n(2)] show ?case by simp
qed

lemma aligned_apk_path_step:
  assumes "\<not> sublist ''.apk'' a"
  shows "aligned_apk_path (a @ ''.apk'' @ b) = a @ ''_aligned.apk'' @ aligned_apk_path b"
  unfolding aligned_apk_path_def
proof (rule replace_first)
  show "''.apk'' \<noteq> []" by simp
  show "\<not> sublist ''.apk'' a" by (rule assms)
  show "prefix ''.apk'' a'" if "a' \<noteq> []" "prefix ''.apk'' (a' @ ''.apk'' @ b')" for a' b'
    using apk_straddle [OF that(2) that(1)] .
qed

section \<open>The sign step\<close>

text \<open>
  C3.  When the keystore file of the instance does not exist, \<^verbatim>\<open>_sign_apk\<close> prints the
  failure message (the short one unless paths are included in messages), returns
  \<open>False\<close> and does nothing else: the world it leaves is the world it found with that one
  line printed, so that no command was launched.
\<close>

theorem sign_apk_missing_keystore:
  assumes "\<not> os_path_exists (keystore_path self) w"
  shows "sign_apk h self apk_path w =
           (Inr False,
            w\<lparr>trace := trace w @
               [Print (Some RED)
                  (if include_paths_in_messages self
                   then ''Keystore not found at '' @ keystore_path self
                   else ''Keystore not found.'')]\<rparr>)
         \<and> commands (events_since w (snd (sign_apk h self apk_path w))) = []"
  using assms
  by (simp add: sign_apk_def bind_def py_print_def return_def commands_def events_since_def)

theorem sign_apk_missing_keystore_witness:
  "\<not> os_path_exists (keystore_path demo_tool) (world_of [(''/w/out.apk'', ''built'')])
   \<and> sign_apk (posix_host (\<lambda>cmd fs. (Ran 0 [] None, fs)) (\<lambda>p fs. [])) demo_tool ''/w/out.apk''
       (world_of [(''/w/out.apk'', ''built'')])
     = (Inr False,
        \<lparr>files = map_of [(''/w/out.apk'', ''built'')],
         trace = [Print (Some RED) ''Keystore not found.'']\<rparr>)"
proof -
  have k: "\<not> os_path_exists (keystore_path demo_tool) (world_of [(''/w/out.apk'', ''built'')])"
    by (simp add: os_path_exists_def demo_tool_def world_of_def)
  show ?thesis
    using k sign_apk_missing_keystore
      [OF k, of "posix_host (\<lambda>cmd fs. (Ran 0 [] None, fs)) (\<lambda>p fs. [])" "''/w/out.apk''"]
    by (simp add: demo_tool_def world_of_def)
qed

section \<open>The chain of \<^verbatim>\<open>build\<close>\<close>

text \<open>
  C1, as the code has it.  \<^verbatim>\<open>_run_cmd\<close> returns nothing, so \<^verbatim>\<open>build\<close> does not
  learn how the build command ended; what it tests afterwards is whether an artifact is on
  disk.  The commands that \<^verbatim>\<open>build\<close> launches are therefore: the build command; then,
  whatever the build command returned or whether it could be launched at all, the signer
  exactly when an artifact is found once the build command was run and the keystore exists;
  then the aligner exactly when the sign step returned \<open>True\<close>.  When no artifact is
  found, nothing is launched after the build command.
\<close>

theorem build_chain:
  "commands (events_since w (snd (build h self fp out force sl w)))
     = build_cmd h self fp out force
       # (case built_apk h fp out (after_build_cmd h self fp out force sl w) of
            None \<Rightarrow> []
          | Some apk \<Rightarrow>
              if \<not> os_path_exists (keystore_path self) (after_build_cmd h self fp out force sl w)
              then []
              else apksigner_cmd self apk
                   # (if fst (sign_apk h self apk (after_build_cmd h self fp out force sl w))
                          = Inr True
                      then [zipalign_cmd self apk] else []))"
proof -
  define w1 where "w1 = after_build_cmd h self fp out force sl w"
  obtain ps where ps: "trace w1 = trace w @ Launch (build_cmd h self fp out force) # ps"
      "\<forall>e\<in>set ps. \<exists>c m. e = Print c m \<and>
              (\<not> include_paths_in_messages self \<longrightarrow>
                 quote \<notin> set m \<or>
                 (sl \<and> m \<in> set (log_messages
                     (fst (subprocess h (build_cmd h self fp out force) (files w))))))"
    using after_build_cmd_effect [of h self fp out force sl w] unfolding w1_def by blast
  have cps: "commands ps = []"
    using commands_prints [OF ps(2)] .
  show ?thesis
  proof (cases "built_apk h fp out w1")
    case None
    then show ?thesis
      using ps(1) cps
      by (simp add: build_unfold w1_def [symmetric] py_print_def events_since_def)
  next
    case (Some apk)
    obtain r w2 where s: "sign_apk h self apk w1 = (r, w2)"
      by (cases "sign_apk h self apk w1")
    have c2: "commands (events_since w1 w2)
        = (if os_path_exists (keystore_path self) w1 then [apksigner_cmd self apk] else [])"
      using sign_apk_commands [of w1 h self apk] s by simp
    obtain qs where qs: "trace w2 = trace w1 @ qs"
      using sign_apk_effect [OF s] by blast
    have e2: "events_since w1 w2 = qs"
      using qs by simp
    show ?thesis
    proof (cases r)
      case (Inl e)
      have ex: "os_path_exists (keystore_path self) w1"
        using s Inl by (auto simp: sign_apk_def bind_def return_def py_print_def split: if_splits)
      have "build h self fp out force sl w = (Inl e, w2)"
        using Some s Inl
        by (simp add: build_unfold w1_def [symmetric] sign_then_align_def bind_def)
      then show ?thesis
        using Some s Inl ps(1) cps qs c2 e2 ex
        by (simp add: w1_def [symmetric] events_since_def)
    next
      case (Inr signed)
      show ?thesis
      proof (cases signed)
        case False
        have ex: "os_path_exists (keystore_path self) w1 \<or> commands qs = []"
          using c2 e2 by auto
        have "build h self fp out force sl w = (Inr (), w2)"
          using Some s Inr False
          by (simp add: build_unfold w1_def [symmetric] sign_then_align_def bind_def return_def)
        then show ?thesis
          using Some s Inr False ps(1) cps qs c2 e2
          by (simp add: w1_def [symmetric] events_since_def)
      next
        case True
        have ex: "os_path_exists (keystore_path self) w1"
          using s Inr True by (auto simp: sign_apk_def bind_def return_def py_print_def split: if_splits)
        obtain r3 w3 where z: "zipalign_apk h self apk w2 = (r3, w3)"
          by (cases "zipalign_apk h self apk w2")
        obtain es where es: "trace w3 = trace w2 @ es"
          using zipalign_apk_effect [OF z] by blast
        have c3: "commands es = [zipalign_cmd self apk]"
          using zipalign_apk_commands [of w2 h self apk] z es by simp
        have "build h self fp out force sl w = (r3, w3)"
          using Some s Inr True z
          by (simp add: build_unfold w1_def [symmetric] sign_then_align_def bind_def)
        then show ?thesis
          using Some s Inr True ps(1) cps qs c2 e2 es c3 ex
          by (simp add: w1_def [symmetric] events_since_def)
      qed
    qed
  qed
qed

text \<open>
  An instance of the chain: the build command succeeds and writes the output file, the
  keystore exists, and the three commands are launched in order.
\<close>

theorem build_chain_witness:
  "commands (events_since (world_of [(''/w/SignKey/debug.keystore'', ''key'')])
      (snd (build (posix_host (sim_tools 0 0) (\<lambda>p fs. [])) demo_tool ''proj'' None True False
        (world_of [(''/w/SignKey/debug.keystore'', ''key'')]))))
     = [build_cmd (posix_host (sim_tools 0 0) (\<lambda>p fs. [])) demo_tool ''proj'' None True,
        apksigner_cmd demo_tool ''/w/proj_Signed.apk'',
        zipalign_cmd demo_tool ''/w/proj_Signed.apk'']"
proof -
  have "built_apk (posix_host (sim_tools 0 0) (\<lambda>p fs. [])) ''proj'' None
          (after_build_cmd (posix_host (sim_tools 0 0) (\<lambda>p fs. [])) demo_tool ''proj'' None True False
             (world_of [(''/w/SignKey/debug.keystore'', ''key'')])) = Some ''/w/proj_Signed.apk''"
    by (simp add: after_build_cmd_def eval_defs)
  moreover have "os_path_exists (keystore_path demo_tool)
          (after_build_cmd (posix_host (sim_tools 0 0) (\<lambda>p fs. [])) demo_tool ''proj'' None True False
             (world_of [(''/w/SignKey/debug.keystore'', ''key'')]))"
    by (simp add: after_build_cmd_def eval_defs)
  moreover have "fst (sign_apk (posix_host (sim_tools 0 0) (\<lambda>p fs. [])) demo_tool ''/w/proj_Signed.apk''
          (after_build_cmd (posix_host (sim_tools 0 0) (\<lambda>p fs. [])) demo_tool ''proj'' None True False
             (world_of [(''/w/SignKey/debug.keystore'', ''key'')]))) = Inr True"
    by (simp add: after_build_cmd_def eval_defs)
  ultimately show ?thesis
    using build_chain [of "world_of [(''/w/SignKey/debug.keystore'', ''key'')]"
        "posix_host (sim_tools 0 0) (\<lambda>p fs. [])" demo_tool "''proj''" None True False]
    by simp
qed

text \<open>
  C1 as stated fails: a build command that exits with code 1 is followed by the signer
  and the aligner when an output file of an earlier build is still on disk.
\<close>

theorem build_failed_build_still_signs:
  "fst (subprocess (posix_host (sim_tools 1 0) (\<lambda>p fs. []))
          (build_cmd (posix_host (sim_tools 1 0) (\<lambda>p fs. [])) demo_tool ''proj'' None True)
          (files (world_of [(''/w/proj_Signed.apk'', ''stale''),
                            (''/w/SignKey/debug.keystore'', ''key'')])))
     = Ran 1 [] None
   \<and> commands (events_since
         (world_of [(''/w/proj_Signed.apk'', ''stale''), (''/w/SignKey/debug.keystore'', ''key'')])
         (snd (build (posix_host (sim_tools 1 0) (\<lambda>p fs. [])) demo_tool ''proj'' None True False
           (world_of [(''/w/proj_Signed.apk'', ''stale''),
                      (''/w/SignKey/debug.keystore'', ''key'')]))))
     = [[''/opt/apktool'', ''b'', ''/w/proj'', ''-f'', ''-o'', ''/w/proj_Signed.apk''],
        apksigner_cmd demo_tool ''/w/proj_Signed.apk'',
        zipalign_cmd demo_tool ''/w/proj_Signed.apk'']"
  by (simp add: eval_defs)

section \<open>The command of \<^verbatim>\<open>build\<close>\<close>

text \<open>
  C9, as the code has it.  The first thing \<^verbatim>\<open>build\<close> does is launch its command, which
  is the decompiler, \<^verbatim>\<open>b\<close> and the folder, then \<^verbatim>\<open>-f\<close> when \<open>force\<close> is set, then
  \<^verbatim>\<open>-o\<close> and the output path.  The output path is the caller's, made absolute, when the
  caller gave one; when the caller gave none (or the empty string), it is the folder's
  path followed by \<^verbatim>\<open>_Signed.apk\<close>, so \<^verbatim>\<open>-o\<close> appears in that case as well.
\<close>

theorem build_command:
  "take 1 (events_since w (snd (build h self fp out force sl w)))
     = [Launch (build_cmd h self fp out force)]
   \<and> build_cmd h self fp None force
     = [apktool_path self, ''b'', adjust_path h fp] @ (if force then [''-f''] else [])
       @ [''-o'', adjust_path h fp @ ''_Signed.apk'']
   \<and> build_cmd h self fp (Some []) force = build_cmd h self fp None force
   \<and> (p \<noteq> [] \<and> adjust_path h p \<noteq> [] \<longrightarrow>
        build_cmd h self fp (Some p) force
        = [apktool_path self, ''b'', adjust_path h fp] @ (if force then [''-f''] else [])
          @ [''-o'', adjust_path h p])"
proof -
  obtain es where "trace (snd (build h self fp out force sl w))
      = trace w @ Launch (build_cmd h self fp out force) # es"
    using build_trace by blast
  then have "take 1 (events_since w (snd (build h self fp out force sl w)))
     = [Launch (build_cmd h self fp out force)]"
    by (simp add: events_since_def)
  then show ?thesis
    by (simp add: build_cmd_def build_output_apk_def Let_def)
qed

theorem build_command_witness:
  "''out/app.apk'' \<noteq> []
   \<and> adjust_path (posix_host (sim_tools 0 0) (\<lambda>p fs. [])) ''out/app.apk'' \<noteq> []
   \<and> build_cmd (posix_host (sim_tools 0 0) (\<lambda>p fs. [])) demo_tool ''proj'' (Some ''out/app.apk'') False
       = [''/opt/apktool'', ''b'', ''/w/proj'', ''-o'', ''/w/out/app.apk'']
   \<and> build_cmd (posix_host (sim_tools 0 0) (\<lambda>p fs. [])) demo_tool ''proj'' None True
       = [''/opt/apktool'', ''b'', ''/w/proj'', ''-f'', ''-o'', ''/w/proj_Signed.apk'']"
  using build_command [of "world_of []" "posix_host (sim_tools 0 0) (\<lambda>p fs. [])" demo_tool
      "''proj''" None False False "''out/app.apk''"]
    build_command [of "world_of []" "posix_host (sim_tools 0 0) (\<lambda>p fs. [])" demo_tool
      "''proj''" None True False "''out/app.apk''"]
  by (simp add: adjust_path_def posix_host_def posix_isabs_def posix_join_def demo_tool_def
        suffix_to_prefix)

text \<open>
  C9 as stated fails: with the output package omitted, the command that \<^verbatim>\<open>build\<close>
  launches carries \<^verbatim>\<open>-o\<close> and the default output path.
\<close>

theorem build_omitted_output_has_o:
  "commands (events_since (world_of [])
      (snd (build (posix_host (sim_tools 1 0) (\<lambda>p fs. [])) demo_tool ''proj'' None True False
             (world_of []))))
     = [[''/opt/apktool'', ''b'', ''/w/proj'', ''-f'', ''-o'', ''/w/proj_Signed.apk'']]"
  by (simp add: eval_defs)

section \<open>The artifact that \<^verbatim>\<open>build\<close> signs\<close>

text \<open>
  C4, as the code has it.  The output path of \<^verbatim>\<open>build\<close> is the caller's output
  package, made absolute, when the caller gave one, and otherwise the folder's path followed
  by \<^verbatim>\<open>_Signed.apk\<close>.  Once the build command was run, \<^verbatim>\<open>build\<close> signs (and then
  aligns) the output path if it exists on disk, whether the caller gave it or not; otherwise
  the first file that the scan of the folder's \<^verbatim>\<open>dist\<close> finds; and when the scan finds
  none, it prints the failure message and returns, the build command being the only command
  it launched.
\<close>

theorem build_artifact:
  "build_output_apk h fp None = adjust_path h fp @ ''_Signed.apk''
   \<and> build_output_apk h fp (Some []) = adjust_path h fp @ ''_Signed.apk''
   \<and> (p \<noteq> [] \<longrightarrow> build_output_apk h fp (Some p) = adjust_path h p)
   \<and> (build_output_apk h fp out \<noteq> [] \<and>
        os_path_exists (build_output_apk h fp out) (after_build_cmd h self fp out force sl w) \<longrightarrow>
        build h self fp out force sl w
        = sign_then_align h self (build_output_apk h fp out)
            (after_build_cmd h self fp out force sl w))
   \<and> (\<not> (build_output_apk h fp out \<noteq> [] \<and>
           os_path_exists (build_output_apk h fp out) (after_build_cmd h self fp out force sl w)) \<longrightarrow>
        (\<forall>apk rest. dist_apk_files h fp (after_build_cmd h self fp out force sl w) = apk # rest \<longrightarrow>
           build h self fp out force sl w
           = sign_then_align h self apk (after_build_cmd h self fp out force sl w))
        \<and> (dist_apk_files h fp (after_build_cmd h self fp out force sl w) = [] \<longrightarrow>
             build h self fp out force sl w
             = (Inr (),
                (after_build_cmd h self fp out force sl w)
                  \<lparr>trace := trace (after_build_cmd h self fp out force sl w) @
                     [Print (Some RED)
                        (if include_paths_in_messages self
                         then ''No APK file found in dist directory after build.''
                         else ''No APK file found after build.'')]\<rparr>)
             \<and> commands (events_since w (snd (build h self fp out force sl w)))
               = [build_cmd h self fp out force]))"
proof -
  define w1 where "w1 = after_build_cmd h self fp out force sl w"
  obtain ps where ps: "trace w1 = trace w @ Launch (build_cmd h self fp out force) # ps"
      "\<forall>e\<in>set ps. \<exists>c m. e = Print c m \<and>
              (\<not> include_paths_in_messages self \<longrightarrow>
                 quote \<notin> set m \<or>
                 (sl \<and> m \<in> set (log_messages
                     (fst (subprocess h (build_cmd h self fp out force) (files w))))))"
    using after_build_cmd_effect [of h self fp out force sl w] unfolding w1_def by blast
  have cps: "commands ps = []"
    using commands_prints [OF ps(2)] .
  have a: "build_output_apk h fp None = adjust_path h fp @ ''_Signed.apk''"
      "build_output_apk h fp (Some []) = adjust_path h fp @ ''_Signed.apk''"
      "p \<noteq> [] \<longrightarrow> build_output_apk h fp (Some p) = adjust_path h p"
    by (simp_all add: build_output_apk_def)
  have b: "build h self fp out force sl w = sign_then_align h self (build_output_apk h fp out) w1"
    if "build_output_apk h fp out \<noteq> [] \<and> os_path_exists (build_output_apk h fp out) w1"
  proof -
    have "built_apk h fp out w1 = Some (build_output_apk h fp out)"
      using that by (simp add: built_apk_def Let_def)
    then show ?thesis by (simp add: build_unfold w1_def [symmetric])
  qed
  have c: "build h self fp out force sl w = sign_then_align h self apk w1"
    if "\<not> (build_output_apk h fp out \<noteq> [] \<and> os_path_exists (build_output_apk h fp out) w1)"
      "dist_apk_files h fp w1 = apk # rest" for apk rest
  proof -
    have "built_apk h fp out w1 = Some apk"
      using that by (auto simp: built_apk_def Let_def)
    then show ?thesis by (simp add: build_unfold w1_def [symmetric])
  qed
  have d: "build h self fp out force sl w
             = (Inr (), w1\<lparr>trace := trace w1 @
                     [Print (Some RED)
                        (if include_paths_in_messages self
                         then ''No APK file found in dist directory after build.''
                         else ''No APK file found after build.'')]\<rparr>)"
    if "\<not> (build_output_apk h fp out \<noteq> [] \<and> os_path_exists (build_output_apk h fp out) w1)"
      "dist_apk_files h fp w1 = []"
  proof -
    have "built_apk h fp out w1 = None"
      using that by (auto simp: built_apk_def Let_def)
    then show ?thesis by (simp add: build_unfold w1_def [symmetric] py_print_def)
  qed
  have e: "commands (events_since w (snd (build h self fp out force sl w)))
               = [build_cmd h self fp out force]"
    if "\<not> (build_output_apk h fp out \<noteq> [] \<and> os_path_exists (build_output_apk h fp out) w1)"
      "dist_apk_files h fp w1 = []"
    using d [OF that] ps(1) cps by (simp add: events_since_def)
  show ?thesis
    unfolding w1_def [symmetric] using a b c d e by blast
qed

text \<open>
  The three cases at work: the default output path that the build command wrote; a missing
  output path with one file in \<^verbatim>\<open>dist\<close>; a missing output path and an empty scan.
\<close>

theorem build_artifact_witness:
  "(build_output_apk (posix_host (sim_tools 0 0) (dist_glob [])) ''proj'' None \<noteq> [] \<and>
    os_path_exists (build_output_apk (posix_host (sim_tools 0 0) (dist_glob [])) ''proj'' None)
      (after_build_cmd (posix_host (sim_tools 0 0) (dist_glob [])) demo_tool ''proj'' None True False
         (world_of [])))
   \<and> build (posix_host (sim_tools 0 0) (dist_glob [])) demo_tool ''proj'' None True False
        (world_of [])
     = sign_then_align (posix_host (sim_tools 0 0) (dist_glob [])) demo_tool ''/w/proj_Signed.apk''
         (after_build_cmd (posix_host (sim_tools 0 0) (dist_glob [])) demo_tool ''proj'' None True
            False (world_of []))
   \<and> \<not> os_path_exists
         (build_output_apk (posix_host (sim_tools 1 0) (dist_glob [''/w/proj/dist/a.apk'']))
            ''proj'' (Some ''out.apk''))
         (after_build_cmd (posix_host (sim_tools 1 0) (dist_glob [''/w/proj/dist/a.apk'']))
            demo_tool ''proj'' (Some ''out.apk'') True False (world_of []))
   \<and> build (posix_host (sim_tools 1 0) (dist_glob [''/w/proj/dist/a.apk''])) demo_tool ''proj''
        (Some ''out.apk'') True False (world_of [])
     = sign_then_align (posix_host (sim_tools 1 0) (dist_glob [''/w/proj/dist/a.apk'']))
         demo_tool ''/w/proj/dist/a.apk''
         (after_build_cmd (posix_host (sim_tools 1 0) (dist_glob [''/w/proj/dist/a.apk'']))
            demo_tool ''proj'' (Some ''out.apk'') True False (world_of []))
   \<and> \<not> os_path_exists
         (build_output_apk (posix_host (sim_tools 1 0) (dist_glob [])) ''proj'' (Some ''out.apk''))
         (after_build_cmd (posix_host (sim_tools 1 0) (dist_glob [])) demo_tool ''proj''
            (Some ''out.apk'') True False (world_of []))
   \<and> dist_apk_files (posix_host (sim_tools 1 0) (dist_glob [])) ''proj''
         (after_build_cmd (posix_host (sim_tools 1 0) (dist_glob [])) demo_tool ''proj''
            (Some ''out.apk'') True False (world_of [])) = []
   \<and> commands (events_since (world_of [])
         (snd (build (posix_host (sim_tools 1 0) (dist_glob [])) demo_tool ''proj''
                 (Some ''out.apk'') True False (world_of []))))
     = [[''/opt/apktool'', ''b'', ''/w/proj'', ''-f'', ''-o'', ''/w/out.apk'']]"
proof -
  let ?H1 = "posix_host (sim_tools 0 0) (dist_glob [])"
  let ?H2 = "posix_host (sim_tools 1 0) (dist_glob [''/w/proj/dist/a.apk''])"
  let ?H3 = "posix_host (sim_tools 1 0) (dist_glob [])"
  have o1: "build_output_apk ?H1 ''proj'' None = ''/w/proj_Signed.apk''"
    by (simp add: eval_defs)
  have h1: "build_output_apk ?H1 ''proj'' None \<noteq> [] \<and>
      os_path_exists (build_output_apk ?H1 ''proj'' None)
        (after_build_cmd ?H1 demo_tool ''proj'' None True False (world_of []))"
    by (simp add: after_build_cmd_def eval_defs)
  have c1: "build ?H1 demo_tool ''proj'' None True False (world_of [])
     = sign_then_align ?H1 demo_tool ''/w/proj_Signed.apk''
         (after_build_cmd ?H1 demo_tool ''proj'' None True False (world_of []))"
    using build_artifact [of ?H1 "''proj''" "''x''" None demo_tool True False "world_of []"] h1 o1
    by metis
  have h2: "\<not> os_path_exists (build_output_apk ?H2 ''proj'' (Some ''out.apk''))
      (after_build_cmd ?H2 demo_tool ''proj'' (Some ''out.apk'') True False (world_of []))"
    by (simp add: after_build_cmd_def eval_defs)
  have g2: "dist_apk_files ?H2 ''proj''
      (after_build_cmd ?H2 demo_tool ''proj'' (Some ''out.apk'') True False (world_of []))
      = [''/w/proj/dist/a.apk'']"
    by (simp add: after_build_cmd_def dist_glob_def eval_defs)
  have c2: "build ?H2 demo_tool ''proj'' (Some ''out.apk'') True False (world_of [])
     = sign_then_align ?H2 demo_tool ''/w/proj/dist/a.apk''
         (after_build_cmd ?H2 demo_tool ''proj'' (Some ''out.apk'') True False (world_of []))"
    using build_artifact [of ?H2 "''proj''" "''x''" "Some ''out.apk''" demo_tool True False
        "world_of []"] h2 g2
    by metis
  have h3: "\<not> os_path_exists (build_output_apk ?H3 ''proj'' (Some ''out.apk''))
      (after_build_cmd ?H3 demo_tool ''proj'' (Some ''out.apk'') True False (world_of []))"
    by (simp add: after_build_cmd_def eval_defs)
  have g3: "dist_apk_files ?H3 ''proj''
      (after_build_cmd ?H3 demo_tool ''proj'' (Some ''out.apk'') True False (world_of [])) = []"
    by (simp add: after_build_cmd_def dist_glob_def eval_defs)
  have b3: "build_cmd ?H3 demo_tool ''proj'' (Some ''out.apk'') True
      = [''/opt/apktool'', ''b'', ''/w/proj'', ''-f'', ''-o'', ''/w/out.apk'']"
    by (simp add: eval_defs)
  have c3: "commands (events_since (world_of [])
         (snd (build ?H3 demo_tool ''proj'' (Some ''out.apk'') True False (world_of []))))
     = [[''/opt/apktool'', ''b'', ''/w/proj'', ''-f'', ''-o'', ''/w/out.apk'']]"
    using build_artifact [of ?H3 "''proj''" "''x''" "Some ''out.apk''" demo_tool True False
        "world_of []"] h3 g3 b3
    by metis
  show ?thesis
    using h1 c1 h2 c2 h3 g3 c3 by blast
qed

text \<open>
  C4 as stated fails: with the output package omitted, a file in \<^verbatim>\<open>dist\<close> and the
  default output path on disk, the claim has \<^verbatim>\<open>build\<close> sign the first file of the scan;
  the code signs the default output path.
\<close>

theorem build_default_output_preferred:
  "dist_apk_files (posix_host (sim_tools 0 1) (dist_glob [''/w/proj/dist/app.apk''])) ''proj''
     (after_build_cmd (posix_host (sim_tools 0 1) (dist_glob [''/w/proj/dist/app.apk'']))
        demo_tool ''proj'' None True False
        (world_of [(''/w/proj/dist/app.apk'', ''unsigned''),
                   (''/w/SignKey/debug.keystore'', ''key'')]))
     = [''/w/proj/dist/app.apk'']
   \<and> commands (events_since
         (world_of [(''/w/proj/dist/app.apk'', ''unsigned''),
                    (''/w/SignKey/debug.keystore'', ''key'')])
         (snd (build (posix_host (sim_tools 0 1) (dist_glob [''/w/proj/dist/app.apk'']))
                 demo_tool ''proj'' None True False
                 (world_of [(''/w/proj/dist/app.apk'', ''unsigned''),
                            (''/w/SignKey/debug.keystore'', ''key'')]))))
     = [[''/opt/apktool'', ''b'', ''/w/proj'', ''-f'', ''-o'', ''/w/proj_Signed.apk''],
        apksigner_cmd demo_tool ''/w/proj_Signed.apk'']"
  by (simp add: after_build_cmd_def dist_glob_def eval_defs)

section \<open>A failed sign step ends the chain\<close>

text \<open>
  C5.  In every run of \<^verbatim>\<open>build\<close> that reaches the sign step, if the sign step returns
  \<open>False\<close> then \<^verbatim>\<open>build\<close> returns in the world the sign step left: the align step is
  not invoked.  The commands launched are the build command and at most the signer, no
  aligner command for any path is among them, and nothing is removed or renamed.
\<close>

theorem build_sign_failure_no_align:
  assumes "built_apk h fp out (after_build_cmd h self fp out force sl w) = Some apk"
      and "sign_apk h self apk (after_build_cmd h self fp out force sl w) = (Inr False, w2)"
  shows "build h self fp out force sl w = (Inr (), w2)
       \<and> commands (events_since w w2)
           = build_cmd h self fp out force
             # (if os_path_exists (keystore_path self) (after_build_cmd h self fp out force sl w)
                then [apksigner_cmd self apk] else [])
       \<and> (\<forall>p. zipalign_cmd self p \<notin> set (commands (events_since w w2)))
       \<and> (\<forall>e\<in>set (events_since w w2). (\<exists>c m. e = Print c m) \<or> (\<exists>cmd. e = Launch cmd))"
proof -
  define w1 where "w1 = after_build_cmd h self fp out force sl w"
  obtain ps where ps: "trace w1 = trace w @ Launch (build_cmd h self fp out force) # ps"
      "\<forall>e\<in>set ps. \<exists>c m. e = Print c m \<and>
              (\<not> include_paths_in_messages self \<longrightarrow>
                 quote \<notin> set m \<or>
                 (sl \<and> m \<in> set (log_messages
                     (fst (subprocess h (build_cmd h self fp out force) (files w))))))"
    using after_build_cmd_effect [of h self fp out force sl w] unfolding w1_def by blast
  have cps: "commands ps = []"
    using commands_prints [OF ps(2)] .
  have s: "sign_apk h self apk w1 = (Inr False, w2)"
    using assms(2) by (simp add: w1_def)
  obtain qs where qs: "trace w2 = trace w1
        @ (if os_path_exists (keystore_path self) w1 then [Launch (apksigner_cmd self apk)] else [])
        @ qs"
      "\<forall>e\<in>set qs. \<exists>c m. e = Print c m \<and> (\<not> include_paths_in_messages self \<longrightarrow> quote \<notin> set m)"
    using sign_apk_effect [OF s] by blast
  have cqs: "commands qs = []"
    using commands_prints [OF qs(2)] .
  have ev: "events_since w w2 = Launch (build_cmd h self fp out force) # ps
        @ (if os_path_exists (keystore_path self) w1 then [Launch (apksigner_cmd self apk)] else [])
        @ qs"
    using ps(1) qs(1) by (simp add: events_since_def)
  have 1: "build h self fp out force sl w = (Inr (), w2)"
    using assms(1) s
    by (simp add: build_unfold w1_def [symmetric] sign_then_align_def bind_def return_def)
  have 2: "commands (events_since w w2)
           = build_cmd h self fp out force
             # (if os_path_exists (keystore_path self) w1 then [apksigner_cmd self apk] else [])"
    using ev cps cqs by simp
  have 3: "zipalign_cmd self p \<notin> set (commands (events_since w w2))" for p
    unfolding 2 by (auto simp: zipalign_cmd_def build_cmd_def apksigner_cmd_def Let_def)
  have 4: "\<forall>e\<in>set (events_since w w2). (\<exists>c m. e = Print c m) \<or> (\<exists>cmd. e = Launch cmd)"
    unfolding ev using ps(2) qs(2) by auto
  show ?thesis
    using 1 2 3 4 unfolding w1_def by blast
qed

theorem build_sign_failure_no_align_witness:
  "built_apk (posix_host (sim_tools 0 1) (dist_glob [])) ''proj'' None
     (after_build_cmd (posix_host (sim_tools 0 1) (dist_glob [])) demo_tool ''proj'' None True False
        (world_of [(''/w/SignKey/debug.keystore'', ''key'')]))
     = Some ''/w/proj_Signed.apk''
   \<and> fst (sign_apk (posix_host (sim_tools 0 1) (dist_glob [])) demo_tool ''/w/proj_Signed.apk''
       (after_build_cmd (posix_host (sim_tools 0 1) (dist_glob [])) demo_tool ''proj'' None True
          False (world_of [(''/w/SignKey/debug.keystore'', ''key'')])))
     = Inr False
   \<and> fst (build (posix_host (sim_tools 0 1) (dist_glob [])) demo_tool ''proj'' None True False
       (world_of [(''/w/SignKey/debug.keystore'', ''key'')]))
     = Inr ()
   \<and> commands (events_since (world_of [(''/w/SignKey/debug.keystore'', ''key'')])
       (snd (build (posix_host (sim_tools 0 1) (dist_glob [])) demo_tool ''proj'' None True False
          (world_of [(''/w/SignKey/debug.keystore'', ''key'')]))))
     = [[''/opt/apktool'', ''b'', ''/w/proj'', ''-f'', ''-o'', ''/w/proj_Signed.apk''],
        apksigner_cmd demo_tool ''/w/proj_Signed.apk'']"
proof -
  let ?H = "posix_host (sim_tools 0 1) (dist_glob [])"
  let ?W = "world_of [(''/w/SignKey/debug.keystore'', ''key'')]"
  let ?W1 = "after_build_cmd ?H demo_tool ''proj'' None True False ?W"
  let ?W2 = "snd (sign_apk ?H demo_tool ''/w/proj_Signed.apk'' ?W1)"
  have h1: "built_apk ?H ''proj'' None ?W1 = Some ''/w/proj_Signed.apk''"
    by (simp add: after_build_cmd_def eval_defs)
  have f: "fst (sign_apk ?H demo_tool ''/w/proj_Signed.apk'' ?W1) = Inr False"
    by (simp add: after_build_cmd_def eval_defs)
  then have h2: "sign_apk ?H demo_tool ''/w/proj_Signed.apk'' ?W1 = (Inr False, ?W2)"
    by (metis prod.collapse)
  have k: "os_path_exists (keystore_path demo_tool) ?W1"
    by (simp add: after_build_cmd_def eval_defs)
  have b: "build_cmd ?H demo_tool ''proj'' None True
      = [''/opt/apktool'', ''b'', ''/w/proj'', ''-f'', ''-o'', ''/w/proj_Signed.apk'']"
    by (simp add: eval_defs)
  from build_sign_failure_no_align [OF h1 h2]
  have "build ?H demo_tool ''proj'' None True False ?W = (Inr (), ?W2)"
    and "commands (events_since ?W ?W2)
           = build_cmd ?H demo_tool ''proj'' None True
             # (if os_path_exists (keystore_path demo_tool) ?W1
                then [apksigner_cmd demo_tool ''/w/proj_Signed.apk''] else [])"
    by blast+
  with h1 f k b show ?thesis by simp
qed

section \<open>The align step\<close>

text \<open>
  C10.  The aligned path is the artifact path with every occurrence of \<^verbatim>\<open>.apk\<close>
  replaced by \<^verbatim>\<open>_aligned.apk\<close>: it is computed by \<^verbatim>\<open>str.replace\<close>, which rewrites
  the first occurrence and goes on in the rest.  For an artifact path that does not contain
  \<^verbatim>\<open>.apk\<close> the aligned path is the artifact path itself, the aligner is given the
  same path as input and output, and when it exits with zero (the file being there) the
  step removes that very file and then calls \<^verbatim>\<open>os.rename\<close> from the path to itself;
  that call finds no file any more, and the step ends with its
  \<^verbatim>\<open>FileNotFoundError\<close>, the artifact gone.
\<close>

theorem zipalign_path_without_apk:
  "aligned_apk_path apk = replace ''.apk'' ''_aligned.apk'' apk
   \<and> (\<not> sublist ''.apk'' a \<longrightarrow>
        aligned_apk_path (a @ ''.apk'' @ b) = a @ ''_aligned.apk'' @ aligned_apk_path b)
   \<and> (\<not> sublist ''.apk'' apk \<longrightarrow>
        aligned_apk_path apk = apk
        \<and> zipalign_cmd self apk = [zipalign_path self, ''-v'', ''4'', apk, apk]
        \<and> (\<forall>out fs c.
              subprocess h (zipalign_cmd self apk) (files w) = (Ran 0 out None, fs) \<and> fs apk = Some c \<longrightarrow>
              zipalign_apk h self apk w
              = (Inl (no_such_file_2 apk apk),
                 \<lparr>files = fs(apk := None),
                  trace = trace w @ [Launch (zipalign_cmd self apk), Remove apk, Rename apk apk]\<rparr>)))"
proof -
  have 1: "aligned_apk_path apk = apk" if "\<not> sublist ''.apk'' apk"
    using that by (simp add: aligned_apk_path_def replace_absent)
  have 2: "zipalign_apk h self apk w
              = (Inl (no_such_file_2 apk apk),
                 \<lparr>files = fs(apk := None),
                  trace = trace w @ [Launch (zipalign_cmd self apk), Remove apk, Rename apk apk]\<rparr>)"
    if "\<not> sublist ''.apk'' apk"
      "subprocess h (zipalign_cmd self apk) (files w) = (Ran 0 out None, fs)" "fs apk = Some c"
    for out fs c
    using that 1
    by (simp add: zipalign_apk_def subprocess_run_def launch_def bind_def os_remove_def
          os_rename_def Let_def)
  show ?thesis
    using 1 2 aligned_apk_path_step [of a b]
    by (simp add: zipalign_cmd_def aligned_apk_path_def)
qed

theorem zipalign_path_without_apk_witness:
  "\<not> sublist ''.apk'' ''/w/app''
   \<and> aligned_apk_path ''/w/app.apk'' = ''/w/app_aligned.apk''
   \<and> \<not> sublist ''.apk'' ''/w/out''
   \<and> aligned_apk_path ''/w/out'' = ''/w/out''
   \<and> fst (zipalign_apk (posix_host (sim_tools 0 0) (dist_glob [])) demo_tool ''/w/out''
           (world_of [(''/w/out'', ''signed'')]))
     = Inl (no_such_file_2 ''/w/out'' ''/w/out'')
   \<and> files (snd (zipalign_apk (posix_host (sim_tools 0 0) (dist_glob [])) demo_tool ''/w/out''
           (world_of [(''/w/out'', ''signed'')]))) ''/w/out''
     = None
   \<and> trace (snd (zipalign_apk (posix_host (sim_tools 0 0) (dist_glob [])) demo_tool ''/w/out''
           (world_of [(''/w/out'', ''signed'')])))
     = [Launch [''/opt/zipalign'', ''-v'', ''4'', ''/w/out'', ''/w/out''],
        Remove ''/w/out'', Rename ''/w/out'' ''/w/out'']"
proof -
  let ?H = "posix_host (sim_tools 0 0) (dist_glob [])"
  let ?W = "world_of [(''/w/out'', ''signed'')]"
  have n1: "\<not> sublist ''.apk'' ''/w/app''"
    by (simp add: sublist_Cons_right)
  have n2: "\<not> sublist ''.apk'' ''/w/out''"
    by (simp add: sublist_Cons_right)
  have c: "zipalign_cmd demo_tool ''/w/out'' = [''/opt/zipalign'', ''-v'', ''4'', ''/w/out'', ''/w/out'']"
    using zipalign_path_without_apk [of "''/w/out''" "''/w/app''" "[]" demo_tool ?H ?W] n2
    by (simp add: demo_tool_def)
  have s: "subprocess ?H (zipalign_cmd demo_tool ''/w/out'') (files ?W)
      = (Ran 0 [] None, (files ?W)(''/w/out'' \<mapsto> ''aligned''))"
    unfolding c by (simp add: posix_host_def sim_tools_def)
  have f: "((files ?W)(''/w/out'' \<mapsto> ''aligned'')) ''/w/out'' = Some ''aligned''"
    by simp
  have a: "aligned_apk_path (''/w/app'' @ ''.apk'' @ []) = ''/w/app'' @ ''_aligned.apk'' @ aligned_apk_path []"
    using zipalign_path_without_apk [of "''/w/out''" "''/w/app''" "[]" demo_tool ?H ?W] n1
    by blast
  have e: "aligned_apk_path [] = []"
    by (simp add: aligned_apk_path_def replace_Nil)
  have z: "zipalign_apk ?H demo_tool ''/w/out'' ?W
      = (Inl (no_such_file_2 ''/w/out'' ''/w/out''),
         \<lparr>files = ((files ?W)(''/w/out'' \<mapsto> ''aligned''))(''/w/out'' := None),
          trace = trace ?W @ [Launch (zipalign_cmd demo_tool ''/w/out''), Remove ''/w/out'',
                              Rename ''/w/out'' ''/w/out'']\<rparr>)"
    using zipalign_path_without_apk [of "''/w/out''" "''/w/app''" "[]" demo_tool ?H ?W] n2 s f
    by blast
  have p: "aligned_apk_path ''/w/out'' = ''/w/out''"
    using zipalign_path_without_apk [of "''/w/out''" "''/w/app''" "[]" demo_tool ?H ?W] n2
    by blast
  show ?thesis
    using n1 n2 a e p z c by (simp add: world_of_def)
qed

text \<open>
  C6 holds where the aligned path differs from the artifact path and both files are there
  once the aligner has exited with zero: the original is removed, the aligned file is
  renamed to the original's path, and its content is what that path then holds.
\<close>

lemma zipalign_apk_replaces_original:
  assumes "aligned_apk_path apk \<noteq> apk"
    and "subprocess h (zipalign_cmd self apk) (files w) = (Ran 0 out None, fs)"
    and "fs apk = Some c" and "fs (aligned_apk_path apk) = Some d"
  shows "zipalign_apk h self apk w
     = (Inr (),
        \<lparr>files = (fs(apk := None, aligned_apk_path apk := None))(apk \<mapsto> d),
         trace = trace w @
           [Launch (zipalign_cmd self apk), Remove apk, Rename (aligned_apk_path apk) apk,
            Print (Some GREEN)
              (if include_paths_in_messages self
               then ''Successfully zipaligned '' @ quoted apk @ ''.''
               else ''Successfully zipaligned.'')]\<rparr>)"
  using assms
  by (simp add: zipalign_apk_def subprocess_run_def launch_def bind_def os_remove_def
        os_rename_def py_print_def Let_def)

text \<open>
  C6 for every artifact path is what the code misses.  For the artifact \<^verbatim>\<open>/w/out\<close>,
  whose name has no \<^verbatim>\<open>.apk\<close>, the aligner exits with zero, and then the step deletes
  the artifact and raises; no file occupies the artifact's path afterwards.  The same
  happens in \<^verbatim>\<open>build\<close> when the caller names the output package \<^verbatim>\<open>out\<close>.
\<close>

theorem zipalign_apk_loses_artifact:
  "fst (subprocess (posix_host (sim_tools 0 0) (dist_glob []))
          (zipalign_cmd demo_tool ''/w/out'') (files (world_of [(''/w/out'', ''signed'')])))
     = Ran 0 [] None
   \<and> fst (zipalign_apk (posix_host (sim_tools 0 0) (dist_glob [])) demo_tool ''/w/out''
           (world_of [(''/w/out'', ''signed'')]))
     = Inl (FileNotFoundError (''[Errno 2] No such file or directory: '' @ quoted ''/w/out''
                                @ '' -> '' @ quoted ''/w/out''))
   \<and> files (snd (zipalign_apk (posix_host (sim_tools 0 0) (dist_glob [])) demo_tool ''/w/out''
           (world_of [(''/w/out'', ''signed'')]))) ''/w/out''
     = None
   \<and> fst (build (posix_host (sim_tools 0 0) (dist_glob [])) demo_tool ''proj'' (Some ''out'') True
           False (world_of [(''/w/SignKey/debug.keystore'', ''key'')]))
     = Inl (FileNotFoundError (''[Errno 2] No such file or directory: '' @ quoted ''/w/out''
                                @ '' -> '' @ quoted ''/w/out''))
   \<and> files (snd (build (posix_host (sim_tools 0 0) (dist_glob [])) demo_tool ''proj'' (Some ''out'')
           True False (world_of [(''/w/SignKey/debug.keystore'', ''key'')]))) ''/w/out''
     = None"
  by (simp add: dist_glob_def eval_defs)

section \<open>Exceptions that reach the caller\<close>

text \<open>
  \<^verbatim>\<open>_run_cmd\<close> catches every exception, so the three operations that only run the
  decompiler never raise, whatever the command does.
\<close>

lemma run_cmd_operations_never_raise:
  "fst (run_cmd h self cmd sl sm w) = Inr ()
   \<and> fst (decompile h self apk out force sl w) = Inr ()
   \<and> fst (install_framework h self apk tag force sl w) = Inr ()
   \<and> fst (empty_framework_dir h self sl w) = Inr ()"
proof -
  have "fst (run_cmd h self c sl sm' w) = Inr ()" for c sm'
    using run_cmd_effect [of h self c sl sm' w] by auto
  then show ?thesis
    by (simp add: decompile_def install_framework_def empty_framework_dir_def Let_def)
qed

text \<open>
  C7 is what \<^verbatim>\<open>build\<close> misses.  \<^verbatim>\<open>_sign_apk\<close> and \<^verbatim>\<open>_zipalign_apk\<close> catch
  \<^verbatim>\<open>CalledProcessError\<close> only: when the signer, or the aligner, cannot be launched, the
  error of \<^verbatim>\<open>subprocess.run\<close> leaves \<^verbatim>\<open>build\<close> as an exception.
\<close>

theorem build_raises_when_tool_cannot_launch:
  "fst (build (posix_host (unlaunchable ''/opt/apksigner'') (dist_glob [])) demo_tool ''proj'' None
          True False (world_of [(''/w/SignKey/debug.keystore'', ''key'')]))
     = Inl (FileNotFoundError (''[Errno 2] No such file or directory: '' @ quoted ''/opt/apksigner''))
   \<and> fst (build (posix_host (unlaunchable ''/opt/zipalign'') (dist_glob [])) demo_tool ''proj'' None
          True False (world_of [(''/w/SignKey/debug.keystore'', ''key'')]))
     = Inl (FileNotFoundError (''[Errno 2] No such file or directory: '' @ quoted ''/opt/zipalign''))"
  by (simp add: unlaunchable_def dist_glob_def eval_defs)

section \<open>Messages without paths\<close>

lemma messages_append [simp]: "messages (es @ fs) = messages es @ messages fs"
  by (simp add: messages_def)

lemma messages_simps [simp]:
  "messages [] = []"
  "messages (Print c m # es) = m # messages es"
  "messages (Launch cmd # es) = messages es"
  "messages (Remove p # es) = messages es"
  "messages (Rename p q # es) = messages es"
  by (simp_all add: messages_def)

lemma print_line_messages:
  "\<exists>ps. trace (print_line l w) = trace w @ ps \<and> files (print_line l w) = files w
        \<and> messages ps = filter shown [strip l]"
  by (simp add: print_line_def Let_def py_print_def shown_def)

lemma fold_print_line_messages:
  "\<exists>ps. trace (fold print_line ls w) = trace w @ ps
        \<and> messages ps = filter shown (map strip ls)"
proof (induction ls arbitrary: w)
  case Nil
  show ?case by simp
next
  case (Cons l ls)
  obtain ps where ps: "trace (print_line l w) = trace w @ ps"
      "messages ps = filter shown [strip l]"
    using print_line_messages [of l w] by blast
  obtain qs where qs: "trace (fold print_line ls (print_line l w)) = trace (print_line l w) @ qs"
      "messages qs = filter shown (map strip ls)"
    using Cons.IH [of "print_line l w"] by blast
  have "trace (fold print_line (l # ls) w) = trace w @ (ps @ qs)"
    using ps qs by simp
  moreover have "messages (ps @ qs) = filter shown (map strip (l # ls))"
    using ps(2) qs(2) by simp
  ultimately show ?case by blast
qed

lemma print_log_messages:
  "\<exists>w' ps. print_log out re w = (Inr (), w') \<and> trace w' = trace w @ ps
        \<and> messages ps = shown_log out re"
proof -
  obtain ps where ps: "trace (fold print_line (readlines [] out) w) = trace w @ ps"
      "messages ps = filter shown (map strip (readlines [] out))"
    using fold_print_line_messages [of "readlines [] out" w] by blast
  show ?thesis
  proof (cases re)
    case None
    with ps show ?thesis
      by (simp add: print_log_def Let_def shown_log_def)
  next
    case (Some e)
    have "messages (ps @ [Print (Some RED) (''Error while reading logs: '' @ e)]) = shown_log out re"
      using ps(2) Some by (simp add: shown_log_def)
    with ps(1) Some show ?thesis
      by (simp add: print_log_def Let_def py_print_def)
  qed
qed

lemma run_cmd_short_messages:
  assumes "\<not> include_paths_in_messages self" and "sm \<noteq> []"
  shows "messages (events_since w (snd (run_cmd h self cmd sl (Some sm) w)))
     = short_runner_messages h cmd sl sm (files w)"
proof (cases "subprocess h cmd (files w)")
  case (Pair r fs)
  define w1 where "w1 = w\<lparr>files := fs, trace := trace w @ [Launch cmd]\<rparr>"
  have l: "launch h cmd w = (r, w1)"
    using Pair by (simp add: launch_def w1_def)
  show ?thesis
  proof (cases r)
    case (Not_Found m)
    with l Pair assms show ?thesis
      by (simp add: run_cmd_def run_cmd_try_def py_print_def Let_def w1_def events_since_def
            short_runner_messages_def str_exn_def)
  next
    case (Cannot_Launch m)
    with l Pair assms show ?thesis
      by (simp add: run_cmd_def run_cmd_try_def py_print_def Let_def w1_def events_since_def
            short_runner_messages_def str_exn_def)
  next
    case (Ran rc out re)
    show ?thesis
    proof (cases sl)
      case True
      obtain w2 ps where p: "print_log out re w1 = (Inr (), w2)" "trace w2 = trace w1 @ ps"
          "messages ps = shown_log out re"
        using print_log_messages [of out re w1] by blast
      with l Pair Ran True assms show ?thesis
        by (simp add: run_cmd_def run_cmd_try_def bind_def return_def py_print_def Let_def w1_def
              events_since_def short_runner_messages_def)
    next
      case False
      with l Pair Ran assms show ?thesis
        by (auto simp: run_cmd_def run_cmd_try_def bind_def return_def raise_def py_print_def
              Let_def w1_def events_since_def short_runner_messages_def str_exn_def
              split: option.splits)
    qed
  qed
qed

lemma sign_apk_short:
  assumes "\<not> include_paths_in_messages self" and "sign_apk h self apk w = (r, w')"
  shows "\<exists>es. trace w' = trace w @ es \<and> set (messages es) \<subseteq> set short_forms"
proof (cases "os_path_exists (keystore_path self) w")
  case False
  with assms show ?thesis
    by (auto simp: sign_apk_def bind_def return_def py_print_def short_forms_def)
next
  case True
  obtain r1 w1 where s: "subprocess_run h (apksigner_cmd self apk) w = (r1, w1)"
      "trace w1 = trace w @ [Launch (apksigner_cmd self apk)]"
    using subprocess_run_effect [of h "apksigner_cmd self apk" w] by blast
  with assms True show ?thesis
    by (auto simp: sign_apk_def bind_def return_def py_print_def short_forms_def
             split: sum.splits exn.splits)
qed

lemma zipalign_apk_short:
  assumes "\<not> include_paths_in_messages self" and "zipalign_apk h self apk w = (r, w')"
  shows "\<exists>es. trace w' = trace w @ es \<and> set (messages es) \<subseteq> set short_forms"
proof -
  obtain r1 w1 where s: "subprocess_run h (zipalign_cmd self apk) w = (r1, w1)"
      "trace w1 = trace w @ [Launch (zipalign_cmd self apk)]"
    using subprocess_run_effect [of h "zipalign_cmd self apk" w] by blast
  with assms show ?thesis
    by (auto simp: zipalign_apk_def bind_def return_def py_print_def short_forms_def
               os_remove_def os_rename_def Let_def
             split: sum.splits exn.splits option.splits if_splits)
qed

lemma build_short_messages:
  assumes "\<not> include_paths_in_messages self"
  shows "\<exists>rest. messages (events_since w (snd (build h self fp out force sl w)))
           = short_runner_messages h (build_cmd h self fp out force) sl
               (''Successfully built '' @ quoted (adjust_path h fp)) (files w) @ rest
         \<and> set rest \<subseteq> set short_forms"
proof -
  define w1 where "w1 = after_build_cmd h self fp out force sl w"
  obtain ps where ps: "trace w1 = trace w @ Launch (build_cmd h self fp out force) # ps"
    using after_build_cmd_effect [of h self fp out force sl w] unfolding w1_def by blast
  have "messages (events_since w w1)
      = short_runner_messages h (build_cmd h self fp out force) sl
               (''Successfully built '' @ quoted (adjust_path h fp)) (files w)"
    unfolding w1_def after_build_cmd_def
    by (rule run_cmd_short_messages [OF assms]) simp
  then have m1: "messages (Launch (build_cmd h self fp out force) # ps)
      = short_runner_messages h (build_cmd h self fp out force) sl
               (''Successfully built '' @ quoted (adjust_path h fp)) (files w)"
    using ps by (simp add: events_since_def)
  have "\<exists>qs. trace (snd (build h self fp out force sl w)) = trace w1 @ qs
      \<and> set (messages qs) \<subseteq> set short_forms"
  proof (cases "built_apk h fp out w1")
    case None
    then show ?thesis
      using assms
      by (simp add: build_unfold w1_def [symmetric] py_print_def short_forms_def)
  next
    case (Some apk)
    obtain r w2 where s: "sign_apk h self apk w1 = (r, w2)"
      by (cases "sign_apk h self apk w1")
    obtain qs where qs: "trace w2 = trace w1 @ qs" "set (messages qs) \<subseteq> set short_forms"
      using sign_apk_short [OF assms s] by blast
    obtain r3 w3 where z: "zipalign_apk h self apk w2 = (r3, w3)"
      by (cases "zipalign_apk h self apk w2")
    obtain es where es: "trace w3 = trace w2 @ es" "set (messages es) \<subseteq> set short_forms"
      using zipalign_apk_short [OF assms z] by blast
    have e1: "trace w3 = trace w1 @ (qs @ es)" "set (messages (qs @ es)) \<subseteq> set short_forms"
      using qs es by simp_all
    show ?thesis
    proof (cases r)
      case (Inl e)
      then have "build h self fp out force sl w = (Inl e, w2)"
        using Some s
        by (simp add: build_unfold w1_def [symmetric] sign_then_align_def bind_def)
      with qs show ?thesis by auto
    next
      case (Inr signed)
      show ?thesis
      proof (cases signed)
        case True
        then have "build h self fp out force sl w = (r3, w3)"
          using Some s Inr z
          by (simp add: build_unfold w1_def [symmetric] sign_then_align_def bind_def)
        with e1 show ?thesis by (metis snd_conv)
      next
        case False
        then have "build h self fp out force sl w = (Inr (), w2)"
          using Some s Inr
          by (simp add: build_unfold w1_def [symmetric] sign_then_align_def bind_def return_def)
        with qs show ?thesis by auto
      qed
    qed
  qed
  then obtain qs where qs: "trace (snd (build h self fp out force sl w)) = trace w1 @ qs"
      "set (messages qs) \<subseteq> set short_forms"
    by blast
  have "events_since w (snd (build h self fp out force sl w))
      = (Launch (build_cmd h self fp out force) # ps) @ qs"
    using ps qs(1) by (simp add: events_since_def)
  then have "messages (events_since w (snd (build h self fp out force sl w)))
      = short_runner_messages h (build_cmd h self fp out force) sl
               (''Successfully built '' @ quoted (adjust_path h fp)) (files w) @ messages qs"
    using m1 by (simp only: messages_append)
  with qs(2) show ?thesis by blast
qed

text \<open>
  C8, as the code has it.  When paths are not included in messages, the messages of
  \<^verbatim>\<open>decompile\<close>, \<^verbatim>\<open>install_framework\<close> and \<^verbatim>\<open>empty_framework_dir\<close> are exactly:
  under \<^verbatim>\<open>show_log\<close> the lines of the command's log as they are (stripped, the echo of
  the prompt dropped, then the error met while reading them), without redaction; and then
  one status message, which is the text before the first single quote of the full message
  (the success message, stripped; the message of the return code; or, with nothing of the
  log shown, the error message).  The messages of \<^verbatim>\<open>build\<close> are those of its build
  command, followed by fixed short forms only.  Neither a text before the first single
  quote nor a fixed short form has a single quote in it.
\<close>

theorem status_messages_redacted:
  assumes "\<not> include_paths_in_messages self"
  shows "messages (events_since w (snd (decompile h self apk out force sl w)))
           = short_runner_messages h (decompile_cmd h self apk out force) sl
               (''Successfully decompiled '' @ quoted (adjust_path h apk)) (files w)
       \<and> messages (events_since w (snd (install_framework h self apk tag force sl w)))
           = short_runner_messages h (install_framework_cmd h self apk tag force) sl
               (''Successfully installed framework from '' @ quoted (adjust_path h apk)) (files w)
       \<and> messages (events_since w (snd (empty_framework_dir h self sl w)))
           = short_runner_messages h [apktool_path self, ''empty-framework-dir''] sl
               ''Successfully emptied the apktool framework directory'' (files w)
       \<and> (\<exists>rest. messages (events_since w (snd (build h self apk out force sl w)))
               = short_runner_messages h (build_cmd h self apk out force) sl
                   (''Successfully built '' @ quoted (adjust_path h apk)) (files w) @ rest
             \<and> set rest \<subseteq> set short_forms)
       \<and> (\<forall>m\<in>set short_forms. quote \<notin> set m)
       \<and> quote \<notin> set (split_quote_0 full) \<and> quote \<notin> set (strip (split_quote_0 full))"
proof -
  have 1: "messages (events_since w (snd (decompile h self apk out force sl w)))
           = short_runner_messages h (decompile_cmd h self apk out force) sl
               (''Successfully decompiled '' @ quoted (adjust_path h apk)) (files w)"
    unfolding decompile_def Let_def by (rule run_cmd_short_messages [OF assms]) simp
  have 2: "messages (events_since w (snd (install_framework h self apk tag force sl w)))
           = short_runner_messages h (install_framework_cmd h self apk tag force) sl
               (''Successfully installed framework from '' @ quoted (adjust_path h apk)) (files w)"
    unfolding install_framework_def Let_def by (rule run_cmd_short_messages [OF assms]) simp
  have 3: "messages (events_since w (snd (empty_framework_dir h self sl w)))
           = short_runner_messages h [apktool_path self, ''empty-framework-dir''] sl
               ''Successfully emptied the apktool framework directory'' (files w)"
    unfolding empty_framework_dir_def Let_def by (rule run_cmd_short_messages [OF assms]) simp
  have 5: "\<forall>m\<in>set short_forms. quote \<notin> set m"
    by (simp add: short_forms_def quote_def)
  show ?thesis
    using 1 2 3 build_short_messages [OF assms, of w h apk out force sl] 5 by simp
qed

theorem status_messages_redacted_witness:
  "\<not> include_paths_in_messages demo_tool
   \<and> messages (events_since (world_of [])
        (snd (decompile (posix_host chatty_tools (dist_glob [])) demo_tool ''app.apk'' None True True
                (world_of []))))
     = [''I: Copying assets of '' @ quoted ''/w/app.apk'', ''Successfully decompiled'']
   \<and> messages (events_since (world_of [])
        (snd (empty_framework_dir (posix_host (sim_tools 0 0) (dist_glob [])) demo_tool False
                (world_of []))))
     = [''Command failed with return code 1'']"
proof -
  let ?H = "posix_host chatty_tools (dist_glob [])"
  let ?H' = "posix_host (sim_tools 0 0) (dist_glob [])"
  have i: "\<not> include_paths_in_messages demo_tool"
    by (simp add: demo_tool_def)
  have s1: "short_runner_messages ?H (decompile_cmd ?H demo_tool ''app.apk'' None True) True
      (''Successfully decompiled '' @ quoted (adjust_path ?H ''app.apk'')) (files (world_of []))
      = [''I: Copying assets of '' @ quoted ''/w/app.apk'', ''Successfully decompiled'']"
    by (simp add: short_runner_messages_def shown_log_def shown_def chatty_tools_def eval_defs)
  have s2: "short_runner_messages ?H' [apktool_path demo_tool, ''empty-framework-dir''] False
      ''Successfully emptied the apktool framework directory'' (files (world_of []))
      = [''Command failed with return code 1'']"
  proof -
    have "str_int 1 = ''1''"
      by code_simp
    then show ?thesis
      by (simp add: short_runner_messages_def eval_defs)
  qed
  show ?thesis
    using i s1 s2
      status_messages_redacted [OF i, where w = "world_of []" and h = ?H and apk = "''app.apk''"
        and out = None and force = True and sl = True]
      status_messages_redacted [OF i, where w = "world_of []" and h = ?H' and sl = False]
    by simp
qed

text \<open>
  C8 as stated fails under \<^verbatim>\<open>show_log\<close>: a line of the decompiler's log that names a
  file in quotes is printed whole, quotes and path included.
\<close>

theorem show_log_lines_not_redacted:
  "\<not> include_paths_in_messages demo_tool
   \<and> messages (events_since (world_of [])
        (snd (decompile (posix_host chatty_tools (dist_glob [])) demo_tool ''app.apk'' None True True
                (world_of []))))
     = [''I: Copying assets of '' @ quoted ''/w/app.apk'', ''Successfully decompiled'']"
  by (simp add: chatty_tools_def messages_def eval_defs)

section \<open>The constructor\<close>

lemma find_tool_nothing:
  assumes "subprocess h (lookup_cmd h name) (files w) = (Ran rc out None, fs)"
    and "rc \<noteq> 0 \<or> strip out = []"
  shows "find_tool h name w
     = (Inr None, w\<lparr>files := fs, trace := trace w @ [Launch (lookup_cmd h name)]\<rparr>)"
  using assms
  by (auto simp: find_tool_def lookup_cmd_def subprocess_run_def launch_def Let_def)

lemma find_tool_found:
  assumes "subprocess h (lookup_cmd h name) (files w) = (Ran 0 out None, fs)"
    and "strip out \<noteq> []"
  shows "find_tool h name w
     = (Inr (Some (strip out)), w\<lparr>files := fs, trace := trace w @ [Launch (lookup_cmd h name)]\<rparr>)"
  using assms
  by (auto simp: find_tool_def lookup_cmd_def subprocess_run_def launch_def Let_def)

text \<open>
  White space is Python's: an output of the lookup that is only a no-break space, or only a
  NEL, and a line feed is stripped to nothing, and the tool is not found.
\<close>

lemma strip_latin1_space:
  "strip [CHR 0xA0, CHR 0x0A] = [] \<and> strip [CHR 0x85, CHR 0x0A] = []
   \<and> strip ('' /usr/bin/apktool'' @ [CHR 0x0D, CHR 0x0A]) = ''/usr/bin/apktool''"
  by (simp add: strip_def isspace_def)

text \<open>
  C2, as the code has it.  For each tool, a path that the caller supplies is taken as it
  is, made absolute, and the world is not consulted: no file is tested.  When the caller
  supplies none, the lookup command is run: if it ends with a return code other than zero,
  or prints only white space, the tool is not found and the not-found error is raised;
  otherwise the path is what it printed, stripped.  \<^verbatim>\<open>__init__\<close> resolves the three
  tools in order, fails with the error of the first that fails, and otherwise returns the
  instance with the three paths.
\<close>

theorem init_resolution:
  "(p \<noteq> [] \<and> adjust_path h p \<noteq> [] \<longrightarrow>
      resolve_tool h (Some p) name w = (Inr (adjust_path h p), w))
   \<and> (omitted g \<and> find_tool h name w = (Inr None, w1) \<longrightarrow>
        resolve_tool h g name w
        = (Inl (FileNotFoundError (name @ '' not found in system PATH.'')), w1))
   \<and> (omitted g \<and> find_tool h name w = (Inr (Some p), w1) \<and> p \<noteq> [] \<longrightarrow>
        resolve_tool h g name w = (Inr p, w1))
   \<and> (subprocess h (lookup_cmd h name) (files w) = (Ran rc out None, fs) \<and>
        (rc \<noteq> 0 \<or> strip out = []) \<longrightarrow>
        find_tool h name w
        = (Inr None, w\<lparr>files := fs, trace := trace w @ [Launch (lookup_cmd h name)]\<rparr>))
   \<and> (subprocess h (lookup_cmd h name) (files w) = (Ran 0 out None, fs) \<and> strip out \<noteq> [] \<longrightarrow>
        find_tool h name w
        = (Inr (Some (strip out)),
           w\<lparr>files := fs, trace := trace w @ [Launch (lookup_cmd h name)]\<rparr>))
   \<and> (resolve_tool h ga ''apktool'' w = (Inl e, w1) \<longrightarrow>
        init h ga gs gz k al pw inc w = (Inl e, w1))
   \<and> (resolve_tool h ga ''apktool'' w = (Inr p1, w1) \<and>
        resolve_tool h gs ''apksigner'' w1 = (Inl e, w2) \<longrightarrow>
        init h ga gs gz k al pw inc w = (Inl e, w2))
   \<and> (resolve_tool h ga ''apktool'' w = (Inr p1, w1) \<and>
        resolve_tool h gs ''apksigner'' w1 = (Inr p2, w2) \<and>
        resolve_tool h gz ''zipalign'' w2 = (Inl e, w3) \<longrightarrow>
        init h ga gs gz k al pw inc w = (Inl e, w3))
   \<and> (resolve_tool h ga ''apktool'' w = (Inr p1, w1) \<and>
        resolve_tool h gs ''apksigner'' w1 = (Inr p2, w2) \<and>
        resolve_tool h gz ''zipalign'' w2 = (Inr p3, w3) \<longrightarrow>
        (\<exists>self. init h ga gs gz k al pw inc w = (Inr self, w3) \<and>
           apktool_path self = p1 \<and> apksigner_path self = p2 \<and> zipalign_path self = p3))"
proof -
  have 1: "p \<noteq> [] \<and> adjust_path h p \<noteq> [] \<longrightarrow>
      resolve_tool h (Some p) name w = (Inr (adjust_path h p), w)"
    by (simp add: resolve_tool_def bind_def return_def)
  have 2: "omitted g \<and> find_tool h name w = (Inr None, w1) \<longrightarrow>
        resolve_tool h g name w
        = (Inl (FileNotFoundError (name @ '' not found in system PATH.'')), w1)"
    by (auto simp: omitted_def resolve_tool_def bind_def raise_def)
  have 3: "omitted g \<and> find_tool h name w = (Inr (Some p), w1) \<and> p \<noteq> [] \<longrightarrow>
        resolve_tool h g name w = (Inr p, w1)"
    by (auto simp: omitted_def resolve_tool_def bind_def return_def)
  have 6: "resolve_tool h ga ''apktool'' w = (Inl e, w1) \<longrightarrow>
        init h ga gs gz k al pw inc w = (Inl e, w1)"
    by (simp add: init_def bind_def)
  have 7: "resolve_tool h ga ''apktool'' w = (Inr p1, w1) \<and>
        resolve_tool h gs ''apksigner'' w1 = (Inl e, w2) \<longrightarrow>
        init h ga gs gz k al pw inc w = (Inl e, w2)"
    by (simp add: init_def bind_def)
  have 8: "resolve_tool h ga ''apktool'' w = (Inr p1, w1) \<and>
        resolve_tool h gs ''apksigner'' w1 = (Inr p2, w2) \<and>
        resolve_tool h gz ''zipalign'' w2 = (Inl e, w3) \<longrightarrow>
        init h ga gs gz k al pw inc w = (Inl e, w3)"
    by (simp add: init_def bind_def)
  have 9: "resolve_tool h ga ''apktool'' w = (Inr p1, w1) \<and>
        resolve_tool h gs ''apksigner'' w1 = (Inr p2, w2) \<and>
        resolve_tool h gz ''zipalign'' w2 = (Inr p3, w3) \<longrightarrow>
        (\<exists>self. init h ga gs gz k al pw inc w = (Inr self, w3) \<and>
           apktool_path self = p1 \<and> apksigner_path self = p2 \<and> zipalign_path self = p3)"
    by (simp add: init_def bind_def return_def)
  show ?thesis
    using 1 2 3 find_tool_nothing [of h name w rc out fs] find_tool_found [of h name w out fs]
      6 7 8 9
    by blast
qed

theorem init_resolution_witness:
  "resolve_tool (posix_host (sim_tools 0 0) (dist_glob [])) (Some ''/opt/apktool'') ''apktool''
      (world_of [])
     = (Inr ''/opt/apktool'', world_of [])
   \<and> subprocess (posix_host (sim_tools 0 0) (dist_glob []))
        (lookup_cmd (posix_host (sim_tools 0 0) (dist_glob [])) ''apksigner'') (files (world_of []))
     = (Ran 1 [] None, files (world_of []))
   \<and> init (posix_host (sim_tools 0 0) (dist_glob [])) (Some ''/opt/apktool'') None
        (Some ''/opt/zipalign'') None ''androiddebugkey'' ''android'' False (world_of [])
     = (Inl (FileNotFoundError ''apksigner not found in system PATH.''),
        \<lparr>files = files (world_of []), trace = [Launch [''which'', ''apksigner'']]\<rparr>)
   \<and> subprocess (posix_host which_tools (dist_glob []))
        (lookup_cmd (posix_host which_tools (dist_glob [])) ''apktool'') (files (world_of []))
     = (Ran 0 (''/usr/bin/apktool'' @ [CHR 0x0A]) None, files (world_of []))
   \<and> resolve_tool (posix_host which_tools (dist_glob [])) None ''apktool'' (world_of [])
     = (Inr ''/usr/bin/apktool'',
        \<lparr>files = files (world_of []), trace = [Launch [''which'', ''apktool'']]\<rparr>)"
proof -
  let ?H = "posix_host (sim_tools 0 0) (dist_glob [])"
  let ?H' = "posix_host which_tools (dist_glob [])"
  let ?W = "world_of []"
  let ?W1 = "?W\<lparr>files := files ?W, trace := trace ?W @ [Launch (lookup_cmd ?H ''apksigner'')]\<rparr>"
  let ?W1' = "?W\<lparr>files := files ?W, trace := trace ?W @ [Launch (lookup_cmd ?H' ''apktool'')]\<rparr>"
  have a: "''/opt/apktool'' \<noteq> [] \<and> adjust_path ?H ''/opt/apktool'' \<noteq> []"
    by (simp add: adjust_path_def posix_host_def posix_isabs_def)
  have ad: "adjust_path ?H ''/opt/apktool'' = ''/opt/apktool''"
    by (simp add: adjust_path_def posix_host_def posix_isabs_def)
  have r1: "resolve_tool ?H (Some ''/opt/apktool'') ''apktool'' ?W = (Inr ''/opt/apktool'', ?W)"
    using init_resolution [where p = "''/opt/apktool''" and h = ?H and name = "''apktool''" and w = ?W]
      a ad by metis
  have lc: "lookup_cmd ?H ''apksigner'' = [''which'', ''apksigner'']"
      "lookup_cmd ?H' ''apktool'' = [''which'', ''apktool'']"
    by (simp_all add: lookup_cmd_def posix_host_def)
  have sp: "subprocess ?H (lookup_cmd ?H ''apksigner'') (files ?W) = (Ran 1 [] None, files ?W)"
    unfolding lc by (simp add: posix_host_def sim_tools_def)
  have ft: "find_tool ?H ''apksigner'' ?W = (Inr None, ?W1)"
    using init_resolution [where h = ?H and name = "''apksigner''" and w = ?W and rc = 1
        and out = "[]" and fs = "files ?W"] sp by simp
  have om: "omitted None"
    by (simp add: omitted_def)
  have r2: "resolve_tool ?H None ''apksigner'' ?W
      = (Inl (FileNotFoundError (''apksigner'' @ '' not found in system PATH.'')), ?W1)"
    using init_resolution [where h = ?H and name = "''apksigner''" and w = ?W and g = None
        and ?w1.0 = ?W1] om ft by blast
  have i: "init ?H (Some ''/opt/apktool'') None (Some ''/opt/zipalign'') None ''androiddebugkey''
      ''android'' False ?W
      = (Inl (FileNotFoundError (''apksigner'' @ '' not found in system PATH.'')), ?W1)"
    using init_resolution [where h = ?H and w = ?W and ?w1.0 = ?W and ?w2.0 = ?W1
        and ga = "Some ''/opt/apktool''" and gs = None and gz = "Some ''/opt/zipalign''"
        and ?p1.0 = "''/opt/apktool''"
        and e = "FileNotFoundError (''apksigner'' @ '' not found in system PATH.'')"
        and k = None and al = "''androiddebugkey''" and pw = "''android''" and inc = False]
      r1 r2
    by blast
  have sp': "subprocess ?H' (lookup_cmd ?H' ''apktool'') (files ?W)
      = (Ran 0 (''/usr/bin/apktool'' @ [CHR 0x0A]) None, files ?W)"
    unfolding lc by (simp add: posix_host_def which_tools_def)
  have st: "strip (''/usr/bin/apktool'' @ [CHR 0x0A]) = ''/usr/bin/apktool''"
    by (simp add: strip_def isspace_def)
  have ft': "find_tool ?H' ''apktool'' ?W = (Inr (Some ''/usr/bin/apktool''), ?W1')"
    using init_resolution [where h = ?H' and name = "''apktool''" and w = ?W
        and out = "''/usr/bin/apktool'' @ [CHR 0x0A]" and fs = "files ?W"] sp' st by simp
  have r3: "resolve_tool ?H' None ''apktool'' ?W = (Inr ''/usr/bin/apktool'', ?W1')"
    using init_resolution [where p = "''/usr/bin/apktool''" and h = ?H' and name = "''apktool''"
        and w = ?W and g = None and ?w1.0 = ?W1'] om ft'
    by blast
  show ?thesis
    using r1 sp i sp' r3 by (simp add: lc world_of_def)
qed

text \<open>
  C2 as stated fails: an instance is constructed from three explicit paths none of which
  exists.
\<close>

theorem init_accepts_dangling_paths:
  "init (posix_host (sim_tools 0 0) (dist_glob [])) (Some ''tools/apktool'')
      (Some ''/nowhere/apksigner'') (Some ''/nowhere/zipalign'') None ''androiddebugkey''
      ''android'' False (world_of [])
     = (Inr \<lparr>apktool_path = ''/w/tools/apktool'', apksigner_path = ''/nowhere/apksigner'',
             zipalign_path = ''/nowhere/zipalign'', keystore_path = ''/w/SignKey/debug.keystore'',
             keystore_alias = ''androiddebugkey'', keystore_password = ''android'',
             include_paths_in_messages = False\<rparr>,
        world_of [])
   \<and> \<not> os_path_exists ''/w/tools/apktool'' (world_of [])
   \<and> \<not> os_path_exists ''/nowhere/apksigner'' (world_of [])
   \<and> \<not> os_path_exists ''/nowhere/zipalign'' (world_of [])"
  by (simp add: init_def resolve_tool_def eval_defs)

end
